theory Spec2Isabelle
  imports Main
begin

section \<open>The WhatsApp bridge of \<^verbatim>\<open>src/lib/whatsapp.ts\<close>\<close>

text \<open>
  The module keeps one process-wide singleton (an underlying messaging client, a mutable
  connection state and an event emitter) and exports \<^verbatim>\<open>getWhatsAppStatus\<close>,
  \<^verbatim>\<open>resetWhatsApp\<close>, \<^verbatim>\<open>startWhatsApp\<close>, \<^verbatim>\<open>sendWhatsAppMessage\<close>,
  \<^verbatim>\<open>sendWhatsAppMedia\<close> and \<^verbatim>\<open>subscribeWhatsAppEvents\<close>.

  Conventions of the embedding.
  \<^item> A JavaScript string is a \<^typ>\<open>string\<close>; each \<^typ>\<open>char\<close> stands for one code unit below
    256 (ASCII and Latin-1), which covers every literal of the module.
  \<^item> The singleton is passed explicitly: every operation takes the singleton and returns
    the updated one.
  \<^item> What the underlying client does (whether \<^verbatim>\<open>initialize()\<close> rejects, which events it
    emits, what the directory lookup answers, whether \<^verbatim>\<open>sendMessage\<close> rejects) is
    an explicit argument of the operation that awaits it.
  \<^item> A thrown value is a value of type \<open>thrown\<close>; an operation that may throw returns
    \<open>thrown + 'a\<close>, with \<open>Inl\<close> for the exception.
\<close>

subsection \<open>Strings\<close>

definition startsWith :: "string \<Rightarrow> string \<Rightarrow> bool" where
  "startsWith s p = (take (length p) s = p)"

definition includesChar :: "string \<Rightarrow> char \<Rightarrow> bool" where
  "includesChar s c = (c \<in> set s)"

text \<open>The white space and line terminators of \<^verbatim>\<open>String.prototype.trim\<close> below 256:
  TAB, LF, VT, FF, CR, SP and NBSP.\<close>

definition isWhiteSpace :: "char \<Rightarrow> bool" where
  "isWhiteSpace c = (c \<in> set [CHR 0x09, CHR 0x0A, CHR 0x0B, CHR 0x0C, CHR 0x0D, CHR 0x20, CHR 0xA0])"

definition trim :: "string \<Rightarrow> string" where
  "trim s = rev (dropWhile isWhiteSpace (rev (dropWhile isWhiteSpace s)))"

text \<open>\<^verbatim>\<open>toLowerCase\<close> on code units below 256: A to Z, and the Latin-1 capitals
  U+00C0 to U+00DE without the multiplication sign U+00D7, move up by 32.\<close>

definition upperCase :: string where
  "upperCase = ''ABCDEFGHIJKLMNOPQRSTUVWXYZ'' @
     [CHR 0xC0, CHR 0xC1, CHR 0xC2, CHR 0xC3, CHR 0xC4, CHR 0xC5, CHR 0xC6, CHR 0xC7,
      CHR 0xC8, CHR 0xC9, CHR 0xCA, CHR 0xCB, CHR 0xCC, CHR 0xCD, CHR 0xCE, CHR 0xCF,
      CHR 0xD0, CHR 0xD1, CHR 0xD2, CHR 0xD3, CHR 0xD4, CHR 0xD5, CHR 0xD6,
      CHR 0xD8, CHR 0xD9, CHR 0xDA, CHR 0xDB, CHR 0xDC, CHR 0xDD, CHR 0xDE]"

definition lowerCase :: string where
  "lowerCase = ''abcdefghijklmnopqrstuvwxyz'' @
     [CHR 0xE0, CHR 0xE1, CHR 0xE2, CHR 0xE3, CHR 0xE4, CHR 0xE5, CHR 0xE6, CHR 0xE7,
      CHR 0xE8, CHR 0xE9, CHR 0xEA, CHR 0xEB, CHR 0xEC, CHR 0xED, CHR 0xEE, CHR 0xEF,
      CHR 0xF0, CHR 0xF1, CHR 0xF2, CHR 0xF3, CHR 0xF4, CHR 0xF5, CHR 0xF6,
      CHR 0xF8, CHR 0xF9, CHR 0xFA, CHR 0xFB, CHR 0xFC, CHR 0xFD, CHR 0xFE]"

definition lowerChar :: "char \<Rightarrow> char" where
  "lowerChar c = (case map_of (zip upperCase lowerCase) c of Some d \<Rightarrow> d | None \<Rightarrow> c)"

definition toLowerCase :: "string \<Rightarrow> string" where
  "toLowerCase s = map lowerChar s"

text \<open>The regular expression class \<^verbatim>\<open>\D\<close> is every code unit that is not one of 0 to 9.\<close>

definition isDigit :: "char \<Rightarrow> bool" where
  "isDigit c = (c \<in> set ''0123456789'')"

subsection \<open>Digit normalisation of the chat-id resolver\<close>

text \<open>
  \<^verbatim>\<open>
  const normalizeDigits = (raw: string) => {
    let digits = (raw || '').replace(/\D/g, '');
    while (digits.startsWith('55') && digits.length > 13) {
      digits = digits.slice(2);
    }
    if (!digits.startsWith('55') && (digits.length === 10 || digits.length === 11)) {
      digits = `55${digits}`;
    }
    return digits;
  };
  \<close>
  The loop is \<open>stripPrefix\<close>; it ends because every round shortens the string.
\<close>

function stripPrefix :: "string \<Rightarrow> string" where
  "stripPrefix digits =
     (if startsWith digits ''55'' \<and> length digits > 13
      then stripPrefix (drop 2 digits) else digits)"
  by pat_completeness auto
termination
  by (relation "measure length") auto

declare stripPrefix.simps [simp del]

definition normalizeDigits :: "string \<Rightarrow> string" where
  "normalizeDigits raw =
     (let digits = stripPrefix (filter isDigit raw)
      in if \<not> startsWith digits ''55'' \<and> (length digits = 10 \<or> length digits = 11)
         then ''55'' @ digits else digits)"


subsection \<open>Connection state, events and the singleton\<close>

text \<open>
  \<^verbatim>\<open>
  type WhatsAppConnectionStatus = 'idle' | 'initializing' | 'qr' | 'ready' | 'disconnected' | 'error';
  type WhatsAppState = { status; qr: string | null; lastError: string | null;
                         initialized: boolean; listenersAttached: boolean; injectedPatched: boolean };
  \<close>
  The first three fields are the snapshot that \<^verbatim>\<open>getWhatsAppStatus\<close> returns and that a
  \<^verbatim>\<open>state\<close> event carries; the state record extends the snapshot record.
\<close>

datatype WhatsAppConnectionStatus =
  S_idle | S_initializing | S_qr | S_ready | S_disconnected | S_error

record StatusSnapshot =
  status :: WhatsAppConnectionStatus
  qr :: "string option"
  lastError :: "string option"

record WhatsAppState = StatusSnapshot +
  initialized :: bool
  listenersAttached :: bool
  injectedPatched :: bool

datatype WhatsAppEvent =
    E_state StatusSnapshot
  | E_qr string
  | E_ready
  | E_disconnected string
  | E_auth_failure string
  | E_message string string string
  | E_error string

text \<open>A thrown value: an \<^verbatim>\<open>Error\<close> with its message, or anything that is not an
  \<^verbatim>\<open>Error\<close> instance. The identity of the error object is not modelled.\<close>

datatype thrown = JsError string | NonError

text \<open>
  The calls the module makes on the underlying client, kept as a trace.
  \<open>Media mimeType base64 filename caption sendMediaAsDocument\<close> is a
  \<^verbatim>\<open>MessageMedia\<close> together with the options it is sent with.
\<close>

datatype content =
    Text string
  | Media string string "string option" "string option" bool

datatype client_call =
    RemoveAllListeners
  | Destroy
  | Initialize
  | Evaluate
  | GetNumberId string
  | SendMessage string content

text \<open>What \<^verbatim>\<open>page.evaluate\<close> of the compatibility patch does: there is no page, or the
  call resolves, or it rejects.\<close>

datatype patch_outcome = NoPage | EvaluateResolves | EvaluateRejects

text \<open>The events of the underlying client that the module listens to. The handler of
  \<^verbatim>\<open>ready\<close> starts the patch without awaiting it, so the event carries what
  \<^verbatim>\<open>page.evaluate\<close> will do; a \<^verbatim>\<open>message\<close> event carries the three strings the handler
  computes from the message.\<close>

datatype client_event =
    C_qr string
  | C_ready patch_outcome
  | C_auth_failure string
  | C_disconnected string
  | C_message string string string

text \<open>What can happen while an operation is suspended at \<^verbatim>\<open>await client.initialize()\<close>: the
  client emits an event, or a \<^verbatim>\<open>page.evaluate\<close> call that a \<^verbatim>\<open>ready\<close> handler started
  settles.\<close>

datatype happening = Emitted client_event | EvaluateSettled

text \<open>
  A listener of the module's emitter is a callback; it is known by its identity only.
  The singleton holds the state, whether the handlers of \<^verbatim>\<open>attachListenersIfNeeded\<close> are
  registered on the current client (\<open>clientWired\<close>), the emitter's listener array for the
  event name \<^verbatim>\<open>'event'\<close>, and three traces: the calls made on the client, the events
  passed to \<^verbatim>\<open>emitter.emit\<close>, and the listener invocations that resulted. The last
  field holds the \<^verbatim>\<open>page.evaluate\<close> calls that were started without \<^verbatim>\<open>await\<close> and have
  not settled yet, oldest first: \<open>True\<close> for a call that will resolve, \<open>False\<close> for one
  that will reject.
\<close>

type_synonym listener = nat

record WhatsAppSingleton =
  state :: WhatsAppState
  clientWired :: bool
  listeners :: "listener list"
  calls :: "client_call list"
  emitted :: "WhatsAppEvent list"
  delivered :: "(listener \<times> WhatsAppEvent) list"
  pendingEvaluate :: "bool list"

definition createSingleton :: WhatsAppSingleton where
  "createSingleton =
     \<lparr>state = \<lparr>status = S_idle, qr = None, lastError = None,
               initialized = False, listenersAttached = False, injectedPatched = False\<rparr>,
      clientWired = False, listeners = [], calls = [], emitted = [], delivered = [],
      pendingEvaluate = []\<rparr>"

definition getSingleton :: "WhatsAppSingleton option \<Rightarrow> WhatsAppSingleton" where
  "getSingleton g = (case g of None \<Rightarrow> createSingleton | Some w \<Rightarrow> w)"

subsection \<open>The emitter\<close>

text \<open>
  The emitter is Node's \<^verbatim>\<open>EventEmitter\<close>: \<^verbatim>\<open>on\<close> appends the listener to the array (also
  when it is there already), \<^verbatim>\<open>off\<close> removes the most recently added instance of the
  listener, if there is one, and \<^verbatim>\<open>emit\<close> calls the listeners of the array in order.
  \<^verbatim>\<open>
  export const subscribeWhatsAppEvents = (listener) => {
    const { emitter } = getSingleton();
    emitter.on('event', listener);
    return () => emitter.off('event', listener);
  };
  \<close>
\<close>

definition emit :: "WhatsAppEvent \<Rightarrow> WhatsAppSingleton \<Rightarrow> WhatsAppSingleton" where
  "emit e w = w\<lparr>emitted := emitted w @ [e],
                delivered := delivered w @ map (\<lambda>l. (l, e)) (listeners w)\<rparr>"

definition on :: "listener \<Rightarrow> WhatsAppSingleton \<Rightarrow> WhatsAppSingleton" where
  "on l w = w\<lparr>listeners := listeners w @ [l]\<rparr>"

definition off :: "listener \<Rightarrow> WhatsAppSingleton \<Rightarrow> WhatsAppSingleton" where
  "off l w = w\<lparr>listeners := rev (remove1 l (rev (listeners w)))\<rparr>"

definition subscribeWhatsAppEvents ::
  "listener \<Rightarrow> WhatsAppSingleton \<Rightarrow> (WhatsAppSingleton \<Rightarrow> WhatsAppSingleton) \<times> WhatsAppSingleton" where
  "subscribeWhatsAppEvents l w = (off l, on l w)"

text \<open>The events a listener has been called with, in order.\<close>

definition received :: "listener \<Rightarrow> WhatsAppSingleton \<Rightarrow> WhatsAppEvent list" where
  "received l w = map snd (filter (\<lambda>d. fst d = l) (delivered w))"

subsection \<open>Status, patch and the client's event handlers\<close>

definition getWhatsAppStatus :: "WhatsAppSingleton \<Rightarrow> StatusSnapshot" where
  "getWhatsAppStatus w =
     \<lparr>status = status (state w), qr = qr (state w), lastError = lastError (state w)\<rparr>"

definition emitState :: "WhatsAppSingleton \<Rightarrow> WhatsAppSingleton" where
  "emitState w = emit (E_state (getWhatsAppStatus w)) w"

text \<open>
  \<^verbatim>\<open>
  const patchInjectedWWebJSIfNeeded = async () => {
    if (state.injectedPatched) return;
    const page = (client as any)?.pupPage;
    if (!page?.evaluate) return;
    try { await page.evaluate(...); state.injectedPatched = true; } catch {}
  };
  \<close>
  The send operations await the patch: \<open>patchInjectedWWebJSIfNeeded\<close> is the whole run,
  with the outcome of \<^verbatim>\<open>page.evaluate\<close> given. The handler of \<^verbatim>\<open>ready\<close> calls it as
  \<^verbatim>\<open>void patchInjectedWWebJSIfNeeded()\<close>: \<open>voidPatchInjectedWWebJSIfNeeded\<close> is the run up
  to the \<^verbatim>\<open>await\<close> (the guard is read and \<^verbatim>\<open>page.evaluate\<close> is called), and
  \<open>evaluateSettles\<close> is the rest, which runs when the oldest pending call settles and
  sets the guard if the call resolved.
\<close>

definition patchInjectedWWebJSIfNeeded ::
  "patch_outcome \<Rightarrow> WhatsAppSingleton \<Rightarrow> WhatsAppSingleton" where
  "patchInjectedWWebJSIfNeeded p w =
     (if injectedPatched (state w) then w
      else case p of
        NoPage \<Rightarrow> w
      | EvaluateResolves \<Rightarrow>
          w\<lparr>calls := calls w @ [Evaluate], state := (state w)\<lparr>injectedPatched := True\<rparr>\<rparr>
      | EvaluateRejects \<Rightarrow> w\<lparr>calls := calls w @ [Evaluate]\<rparr>)"

definition voidPatchInjectedWWebJSIfNeeded ::
  "patch_outcome \<Rightarrow> WhatsAppSingleton \<Rightarrow> WhatsAppSingleton" where
  "voidPatchInjectedWWebJSIfNeeded p w =
     (if injectedPatched (state w) then w
      else case p of
        NoPage \<Rightarrow> w
      | EvaluateResolves \<Rightarrow>
          w\<lparr>calls := calls w @ [Evaluate], pendingEvaluate := pendingEvaluate w @ [True]\<rparr>
      | EvaluateRejects \<Rightarrow>
          w\<lparr>calls := calls w @ [Evaluate], pendingEvaluate := pendingEvaluate w @ [False]\<rparr>)"

definition evaluateSettles :: "WhatsAppSingleton \<Rightarrow> WhatsAppSingleton" where
  "evaluateSettles w =
     (case pendingEvaluate w of
        [] \<Rightarrow> w
      | resolved # rest \<Rightarrow>
          (if resolved
           then w\<lparr>pendingEvaluate := rest, state := (state w)\<lparr>injectedPatched := True\<rparr>\<rparr>
           else w\<lparr>pendingEvaluate := rest\<rparr>))"

text \<open>\<^verbatim>\<open>a || b\<close> on strings: the empty string is falsy.\<close>

definition orElse :: "string \<Rightarrow> string \<Rightarrow> string" where
  "orElse a b = (if a = [] then b else a)"

text \<open>
  The handlers that \<^verbatim>\<open>attachListenersIfNeeded\<close> registers with \<^verbatim>\<open>client.on\<close>:
  \<^verbatim>\<open>
  client.on('qr', (qr) => { state.status = 'qr'; state.qr = qr; state.lastError = null;
    emitter.emit('event', { type: 'qr', data: { qr } }); emitState(); });
  client.on('ready', () => { state.status = 'ready'; state.qr = null; state.lastError = null;
    emitter.emit('event', { type: 'ready', data: {} }); emitState();
    void patchInjectedWWebJSIfNeeded(); });
  client.on('auth_failure', (message) => { state.status = 'error';
    state.lastError = message || 'auth_failure';
    emitter.emit('event', { type: 'auth_failure', data: { message: message || 'auth_failure' } });
    emitState(); });
  client.on('disconnected', (reason) => { state.status = 'disconnected';
    state.lastError = reason || null;
    emitter.emit('event', { type: 'disconnected', data: { reason: reason || '' } });
    emitState(); });
  client.on('message', (msg) => { ... emitter.emit('event', { type: 'message', data: { from, body, id } }); });
  \<close>
\<close>

definition onQr :: "string \<Rightarrow> WhatsAppSingleton \<Rightarrow> WhatsAppSingleton" where
  "onQr q w =
     emitState (emit (E_qr q)
       (w\<lparr>state := (state w)\<lparr>status := S_qr, qr := Some q, lastError := None\<rparr>\<rparr>))"

definition onReady :: "patch_outcome \<Rightarrow> WhatsAppSingleton \<Rightarrow> WhatsAppSingleton" where
  "onReady p w =
     voidPatchInjectedWWebJSIfNeeded p (emitState (emit E_ready
       (w\<lparr>state := (state w)\<lparr>status := S_ready, qr := None, lastError := None\<rparr>\<rparr>)))"

definition onAuthFailure :: "string \<Rightarrow> WhatsAppSingleton \<Rightarrow> WhatsAppSingleton" where
  "onAuthFailure message w =
     emitState (emit (E_auth_failure (orElse message ''auth_failure''))
       (w\<lparr>state := (state w)\<lparr>status := S_error,
                                lastError := Some (orElse message ''auth_failure'')\<rparr>\<rparr>))"

definition onDisconnected :: "string \<Rightarrow> WhatsAppSingleton \<Rightarrow> WhatsAppSingleton" where
  "onDisconnected reason w =
     emitState (emit (E_disconnected (orElse reason []))
       (w\<lparr>state := (state w)\<lparr>status := S_disconnected,
                                lastError := (if reason = [] then None else Some reason)\<rparr>\<rparr>))"

definition onMessage :: "string \<Rightarrow> string \<Rightarrow> string \<Rightarrow> WhatsAppSingleton \<Rightarrow> WhatsAppSingleton" where
  "onMessage sender body ident w = emit (E_message sender body ident) w"

text \<open>The underlying client emits an event: the handlers run if they are registered on the
  current client.\<close>

definition clientEmits :: "client_event \<Rightarrow> WhatsAppSingleton \<Rightarrow> WhatsAppSingleton" where
  "clientEmits ev w =
     (if clientWired w then
        (case ev of
           C_qr q \<Rightarrow> onQr q w
         | C_ready p \<Rightarrow> onReady p w
         | C_auth_failure m \<Rightarrow> onAuthFailure m w
         | C_disconnected r \<Rightarrow> onDisconnected r w
         | C_message sender body ident \<Rightarrow> onMessage sender body ident w)
      else w)"

fun happens :: "happening \<Rightarrow> WhatsAppSingleton \<Rightarrow> WhatsAppSingleton" where
  "happens (Emitted ev) w = clientEmits ev w"
| "happens EvaluateSettled w = evaluateSettles w"

text \<open>
  \<^verbatim>\<open>
  const attachListenersIfNeeded = () => {
    if (state.listenersAttached) return;
    state.listenersAttached = true;
    client.on('qr', ...); client.on('ready', ...); ...
  };
  \<close>
\<close>

definition attachListenersIfNeeded :: "WhatsAppSingleton \<Rightarrow> WhatsAppSingleton" where
  "attachListenersIfNeeded w =
     (if listenersAttached (state w) then w
      else w\<lparr>state := (state w)\<lparr>listenersAttached := True\<rparr>, clientWired := True\<rparr>)"

subsection \<open>reset and start\<close>

text \<open>
  \<^verbatim>\<open>
  export const resetWhatsApp = async () => {
    const singleton = getSingleton();
    try {
      try { (singleton.client as any)?.removeAllListeners?.(); } catch {}
      await singleton.client.destroy();
    } catch {}
    singleton.client = createClient();
    singleton.state.status = 'idle'; singleton.state.qr = null; singleton.state.lastError = null;
    singleton.state.initialized = false; singleton.state.listenersAttached = false;
    singleton.state.injectedPatched = false;
    attachListenersIfNeeded();
    emitState();
    return getWhatsAppStatus();
  };
  \<close>
  The two arguments say whether \<^verbatim>\<open>removeAllListeners\<close> throws and whether \<^verbatim>\<open>destroy\<close>
  rejects. \<open>tryCatch\<close> is a \<^verbatim>\<open>try\<close> block with its handler; the handlers of the two blocks
  are empty. The new client has no handlers registered.
\<close>

definition clientCall ::
  "client_call \<Rightarrow> thrown option \<Rightarrow> WhatsAppSingleton \<Rightarrow> (thrown + unit) \<times> WhatsAppSingleton" where
  "clientCall c outcome w =
     ((case outcome of None \<Rightarrow> Inr () | Some e \<Rightarrow> Inl e), w\<lparr>calls := calls w @ [c]\<rparr>)"

definition tryCatch ::
  "(thrown + 'a) \<times> WhatsAppSingleton \<Rightarrow> (thrown \<Rightarrow> WhatsAppSingleton \<Rightarrow> (thrown + 'a) \<times> WhatsAppSingleton)
     \<Rightarrow> (thrown + 'a) \<times> WhatsAppSingleton" where
  "tryCatch body handler =
     (case body of (Inl e, w) \<Rightarrow> handler e w | (Inr v, w) \<Rightarrow> (Inr v, w))"

definition resetWhatsApp ::
  "thrown option \<Rightarrow> thrown option \<Rightarrow> WhatsAppSingleton
     \<Rightarrow> (thrown + StatusSnapshot) \<times> WhatsAppSingleton" where
  "resetWhatsApp removeThrows destroyRejects w =
     (case tryCatch
             (case tryCatch (clientCall RemoveAllListeners removeThrows w) (\<lambda>e w'. (Inr (), w')) of
                (Inl e, w1) \<Rightarrow> (Inl e, w1)
              | (Inr u, w1) \<Rightarrow> clientCall Destroy destroyRejects w1)
             (\<lambda>e w'. (Inr (), w')) of
        (Inl e, w2) \<Rightarrow> (Inl e, w2)
      | (Inr u, w2) \<Rightarrow>
          (let w3 = w2\<lparr>clientWired := False\<rparr>;
               w4 = w3\<lparr>state := (state w3)\<lparr>status := S_idle, qr := None, lastError := None,
                                             initialized := False, listenersAttached := False,
                                             injectedPatched := False\<rparr>\<rparr>;
               w5 = attachListenersIfNeeded w4;
               w6 = emitState w5
           in (Inr (getWhatsAppStatus w6), w6)))"

text \<open>
  \<^verbatim>\<open>
  export const startWhatsApp = async () => {
    const { client, state, emitter } = getSingleton();
    attachListenersIfNeeded();
    if (state.status === 'ready' || state.status === 'initializing' || state.status === 'qr') {
      return getWhatsAppStatus();
    }
    state.status = 'initializing';
    state.lastError = null;
    emitter.emit('event', { type: 'state', data: { status: state.status, qr: state.qr, lastError: state.lastError } });
    if (!state.initialized) {
      state.initialized = true;
      try {
        await client.initialize();
      } catch (e) {
        const message = e instanceof Error ? e.message : 'Falha ao inicializar WhatsApp.';
        state.status = 'error'; state.lastError = message; state.initialized = false;
        emitter.emit('event', { type: 'error', data: { message } });
        emitState();
      }
    }
    return getWhatsAppStatus();
  };
  \<close>
  One run of \<^verbatim>\<open>client.initialize()\<close> is described by what happens while the call is
  pending (\<open>during\<close>: events of the client, pending patches settling) and by whether the
  call rejects (\<open>rejects\<close>). Other calls of the module's operations while this one is
  suspended are not interleaved.
  \<open>enterInitializing\<close> is the three statements after the early return,
  \<open>callInitialize\<close> is the body of \<^verbatim>\<open>if (!state.initialized)\<close> and \<open>initializeRejected\<close> is
  the \<^verbatim>\<open>catch\<close> block in it.
\<close>

record init_run =
  during :: "happening list"
  rejects :: "thrown option"

definition msgInitFailed :: string where
  "msgInitFailed = ''Falha ao inicializar WhatsApp.''"

definition initFailureMessage :: "thrown \<Rightarrow> string" where
  "initFailureMessage e = (case e of JsError m \<Rightarrow> m | NonError \<Rightarrow> msgInitFailed)"

definition initializeRejected :: "thrown \<Rightarrow> WhatsAppSingleton \<Rightarrow> WhatsAppSingleton" where
  "initializeRejected e w =
     (let message = initFailureMessage e;
          w1 = w\<lparr>state := (state w)\<lparr>status := S_error, lastError := Some message,
                                     initialized := False\<rparr>\<rparr>;
          w2 = emit (E_error message) w1
      in emitState w2)"

definition callInitialize :: "init_run \<Rightarrow> WhatsAppSingleton \<Rightarrow> WhatsAppSingleton" where
  "callInitialize r w =
     (let w1 = w\<lparr>state := (state w)\<lparr>initialized := True\<rparr>, calls := calls w @ [Initialize]\<rparr>;
          w2 = fold happens (during r) w1
      in case rejects r of None \<Rightarrow> w2 | Some e \<Rightarrow> initializeRejected e w2)"

definition enterInitializing :: "WhatsAppSingleton \<Rightarrow> WhatsAppSingleton" where
  "enterInitializing w =
     (let w1 = w\<lparr>state := (state w)\<lparr>status := S_initializing, lastError := None\<rparr>\<rparr>
      in emit (E_state (getWhatsAppStatus w1)) w1)"

definition startWhatsApp ::
  "init_run \<Rightarrow> WhatsAppSingleton \<Rightarrow> (thrown + StatusSnapshot) \<times> WhatsAppSingleton" where
  "startWhatsApp r w =
     (let w1 = attachListenersIfNeeded w in
      if status (state w1) = S_ready \<or> status (state w1) = S_initializing \<or> status (state w1) = S_qr
      then (Inr (getWhatsAppStatus w1), w1)
      else
        (let w2 = enterInitializing w1;
             w3 = (if \<not> initialized (state w2) then callInitialize r w2 else w2)
         in (Inr (getWhatsAppStatus w3), w3)))"

subsection \<open>Resolving a destination and sending\<close>

text \<open>The messages of the errors the module throws. Code units above 127 are written by
  number: \<open>0xE3\<close>, \<open>0xE1\<close>, \<open>0xFA\<close> and \<open>0xED\<close> are a-tilde, a-acute, u-acute and
  i-acute.\<close>

definition msgInvalidNumber :: string where
  "msgInvalidNumber = ''N'' @ [CHR 0xFA] @ ''mero inv'' @ [CHR 0xE1] @ ''lido.''"

definition msgSelfUnresolved :: string where
  "msgSelfUnresolved =
     ''N'' @ [CHR 0xE3] @ ''o foi poss'' @ [CHR 0xED] @ ''vel resolver o n'' @ [CHR 0xFA] @
     ''mero do WhatsApp conectado.''"

definition msgNotOnWhatsApp :: string where
  "msgNotOnWhatsApp =
     ''Este n'' @ [CHR 0xFA] @ ''mero n'' @ [CHR 0xE3] @ ''o est'' @ [CHR 0xE1] @ '' no WhatsApp.''"

definition msgNotConnected :: string where
  "msgNotConnected = ''WhatsApp n'' @ [CHR 0xE3] @ ''o est'' @ [CHR 0xE1] @ '' conectado.''"

definition msgEmptyMessage :: string where
  "msgEmptyMessage = ''Mensagem vazia.''"

definition msgInvalidMedia :: string where
  "msgInvalidMedia = ''M'' @ [CHR 0xED] @ ''dia inv'' @ [CHR 0xE1] @ ''lida.''"

definition msgSendTextFailed :: string where
  "msgSendTextFailed = ''Falha ao enviar mensagem.''"

definition msgSendMediaFailed :: string where
  "msgSendMediaFailed = ''Falha ao enviar m'' @ [CHR 0xED] @ ''dia.''"

text \<open>
  What the underlying client does during one send: the run of \<^verbatim>\<open>initialize()\<close> if the
  internal \<^verbatim>\<open>startWhatsApp()\<close> gets that far, the string
  \<^verbatim>\<open>String(wid?._serialized || wid || '')\<close> of the connected identity, the directory lookup
  (\<open>Inl\<close>: the lookup rejects; \<open>Inr s\<close>: it resolves and
  \<^verbatim>\<open>String(numberId?._serialized || '')\<close> is \<open>s\<close>), the outcome of the patch, and whether
  \<^verbatim>\<open>sendMessage\<close> rejects.
\<close>

record client_env =
  initialize :: init_run
  selfWid :: string
  getNumberId :: "string \<Rightarrow> thrown + string"
  evaluate :: patch_outcome
  sendMessage :: "thrown option"

text \<open>
  \<^verbatim>\<open>
  const resolveWhatsAppChatId = async (client, numberOrChatId) => {
    const input = (numberOrChatId || '').trim();
    if (!input) throw new Error('Numero invalido.');
    const resolveSelfChatId = () => {
      const wid = (client as any)?.info?.wid;
      const serialized = String(wid?._serialized || wid || '').trim();
      if (serialized.includes('@')) return serialized;
      return '';
    };
    const inputLower = input.toLowerCase();
    if (inputLower === 'me' || inputLower === 'self') {
      const chatId = resolveSelfChatId();
      if (!chatId) throw new Error('Nao foi possivel resolver o numero do WhatsApp conectado.');
      return chatId;
    }
    if (input.includes('@')) return input;
    const digits = normalizeDigits(input);
    if (!digits) throw new Error('Numero invalido.');
    try {
      const numberId = await (client as any).getNumberId(digits);
      const chatId = String(numberId?._serialized || '');
      if (chatId) return chatId;
    } catch {}
    throw new Error('Este numero nao esta no WhatsApp.');
  };
  \<close>
  (The accents of the messages are left out of this quotation.)
\<close>

definition resolveSelfChatId :: "client_env \<Rightarrow> string" where
  "resolveSelfChatId env =
     (let serialized = trim (selfWid env)
      in if includesChar serialized (CHR ''@'') then serialized else [])"

definition resolveWhatsAppChatId ::
  "client_env \<Rightarrow> string \<Rightarrow> WhatsAppSingleton \<Rightarrow> (thrown + string) \<times> WhatsAppSingleton" where
  "resolveWhatsAppChatId env numberOrChatId w =
     (let input = trim numberOrChatId in
      if input = [] then (Inl (JsError msgInvalidNumber), w)
      else if toLowerCase input = ''me'' \<or> toLowerCase input = ''self'' then
        (let chatId = resolveSelfChatId env
         in if chatId = [] then (Inl (JsError msgSelfUnresolved), w) else (Inr chatId, w))
      else if includesChar input (CHR ''@'') then (Inr input, w)
      else
        (let digits = normalizeDigits input in
         if digits = [] then (Inl (JsError msgInvalidNumber), w)
         else
           (let w1 = w\<lparr>calls := calls w @ [GetNumberId digits]\<rparr>
            in case getNumberId env digits of
                 Inr chatId \<Rightarrow>
                   if chatId \<noteq> [] then (Inr chatId, w1) else (Inl (JsError msgNotOnWhatsApp), w1)
               | Inl e \<Rightarrow> (Inl (JsError msgNotOnWhatsApp), w1))))"

text \<open>
  \<^verbatim>\<open>/no lid for user/i.test(msg)\<close>: the pattern is a literal of ASCII letters and spaces, so
  the test asks whether \<open>msg\<close>, with its letters lower-cased, contains the literal. (A
  code unit above 127 never matches an ASCII letter under the flag \<^verbatim>\<open>i\<close>, and none is
  lower-cased to one.)
\<close>

fun containsIgnoreCase :: "string \<Rightarrow> string \<Rightarrow> bool" where
  "containsIgnoreCase [] p = (p = [])"
| "containsIgnoreCase (c # cs) p =
     (startsWith (toLowerCase (c # cs)) p \<or> containsIgnoreCase cs p)"

definition noLidForUser :: "string \<Rightarrow> bool" where
  "noLidForUser msg = containsIgnoreCase msg ''no lid for user''"

text \<open>
  The handler of the \<^verbatim>\<open>try\<close> block around \<^verbatim>\<open>client.sendMessage\<close>, the same in both send
  operations but for the last message:
  \<^verbatim>\<open>
  } catch (e) {
    const msg = e instanceof Error ? e.message : '';
    if (/no lid for user/i.test(msg)) throw new Error('Este numero nao esta no WhatsApp.');
    if (msg) throw new Error(msg);
    throw e instanceof Error ? e : new Error('Falha ao enviar mensagem.');
  }
  \<close>
\<close>

definition sendFailure :: "string \<Rightarrow> thrown \<Rightarrow> thrown" where
  "sendFailure fallback e =
     (let msg = (case e of JsError m \<Rightarrow> m | NonError \<Rightarrow> [])
      in if noLidForUser msg then JsError msgNotOnWhatsApp
         else if msg \<noteq> [] then JsError msg
         else (case e of JsError m \<Rightarrow> e | NonError \<Rightarrow> JsError fallback))"

text \<open>
  \<^verbatim>\<open>
  export const sendWhatsAppMessage = async (numberOrChatId, message) => {
    const { client } = getSingleton();
    const status = await startWhatsApp();
    if (status.status !== 'ready') throw new Error('WhatsApp nao esta conectado.');
    const text = (message || '').toString();
    if (!text.trim()) throw new Error('Mensagem vazia.');
    const chatId = await resolveWhatsAppChatId(client, numberOrChatId);
    await patchInjectedWWebJSIfNeeded();
    try {
      await client.sendMessage(chatId, text, { sendSeen: false });
    } catch (e) { ... }
  };
  \<close>
\<close>

definition sendWhatsAppMessage ::
  "client_env \<Rightarrow> string \<Rightarrow> string \<Rightarrow> WhatsAppSingleton \<Rightarrow> (thrown + unit) \<times> WhatsAppSingleton" where
  "sendWhatsAppMessage env numberOrChatId message w =
     (case startWhatsApp (initialize env) w of
        (Inl e, w1) \<Rightarrow> (Inl e, w1)
      | (Inr st, w1) \<Rightarrow>
          if status st \<noteq> S_ready then (Inl (JsError msgNotConnected), w1)
          else if trim message = [] then (Inl (JsError msgEmptyMessage), w1)
          else
            (case resolveWhatsAppChatId env numberOrChatId w1 of
               (Inl e, w2) \<Rightarrow> (Inl e, w2)
             | (Inr chatId, w2) \<Rightarrow>
                 tryCatch
                   (clientCall (SendMessage chatId (Text message)) (sendMessage env)
                      (patchInjectedWWebJSIfNeeded (evaluate env) w2))
                   (\<lambda>e w'. (Inl (sendFailure msgSendTextFailed e), w'))))"

text \<open>
  \<^verbatim>\<open>
  export const sendWhatsAppMedia = async (numberOrChatId, data, caption?, options?) => {
    const { client } = getSingleton();
    const status = await startWhatsApp();
    if (status.status !== 'ready') throw new Error('WhatsApp nao esta conectado.');
    const mimeType = String(data?.mimeType || '').trim();
    const base64 = String(data?.base64 || '').trim();
    const filename = String(data?.filename || '').trim() || undefined;
    if (!mimeType || !base64) throw new Error('Midia invalida.');
    const chatId = await resolveWhatsAppChatId(client, numberOrChatId);
    await patchInjectedWWebJSIfNeeded();
    const media = new MessageMedia(mimeType, base64, filename);
    const captionText = (caption || '').toString().trim();
    const sendAsDocument = options?.sendAsDocument === true;
    try {
      await client.sendMessage(chatId, media, { sendSeen: false,
        caption: captionText || undefined,
        sendMediaAsDocument: sendAsDocument ? true : undefined });
    } catch (e) { ... }
  };
  \<close>
\<close>

record media_data =
  mimeType :: string
  base64 :: string
  filename :: "string option"

definition trimmedOrUndefined :: "string option \<Rightarrow> string option" where
  "trimmedOrUndefined s =
     (case s of None \<Rightarrow> None | Some t \<Rightarrow> if trim t = [] then None else Some (trim t))"

definition sendWhatsAppMedia ::
  "client_env \<Rightarrow> string \<Rightarrow> media_data \<Rightarrow> string option \<Rightarrow> bool \<Rightarrow> WhatsAppSingleton
     \<Rightarrow> (thrown + unit) \<times> WhatsAppSingleton" where
  "sendWhatsAppMedia env numberOrChatId data caption sendAsDocument w =
     (case startWhatsApp (initialize env) w of
        (Inl e, w1) \<Rightarrow> (Inl e, w1)
      | (Inr st, w1) \<Rightarrow>
          if status st \<noteq> S_ready then (Inl (JsError msgNotConnected), w1)
          else if trim (mimeType data) = [] \<or> trim (base64 data) = []
          then (Inl (JsError msgInvalidMedia), w1)
          else
            (case resolveWhatsAppChatId env numberOrChatId w1 of
               (Inl e, w2) \<Rightarrow> (Inl e, w2)
             | (Inr chatId, w2) \<Rightarrow>
                 tryCatch
                   (clientCall
                      (SendMessage chatId
                         (Media (trim (mimeType data)) (trim (base64 data))
                            (trimmedOrUndefined (filename data)) (trimmedOrUndefined caption)
                            sendAsDocument))
                      (sendMessage env)
                      (patchInjectedWWebJSIfNeeded (evaluate env) w2))
                   (\<lambda>e w'. (Inl (sendFailure msgSendMediaFailed e), w'))))"

text \<open>The \<^verbatim>\<open>sendMessage\<close> calls of the trace.\<close>

fun isSendMessage :: "client_call \<Rightarrow> bool" where
  "isSendMessage (SendMessage chatId c) = True"
| "isSendMessage other = False"

definition sendMessageCalls :: "WhatsAppSingleton \<Rightarrow> client_call list" where
  "sendMessageCalls w = filter isSendMessage (calls w)"

subsection \<open>Sequences of operations\<close>

text \<open>The operations, the client events and the settling of a pending patch, applied in
  order to the singleton.\<close>

datatype action =
    Start init_run
  | Reset "thrown option" "thrown option"
  | ClientEmits client_event
  | EvaluateSettles
  | SendText client_env string string
  | SendMedia client_env string media_data "string option" bool

fun step :: "action \<Rightarrow> WhatsAppSingleton \<Rightarrow> WhatsAppSingleton" where
  "step (Start r) w = snd (startWhatsApp r w)"
| "step (Reset removeThrows destroyRejects) w = snd (resetWhatsApp removeThrows destroyRejects w)"
| "step (ClientEmits ev) w = clientEmits ev w"
| "step EvaluateSettles w = evaluateSettles w"
| "step (SendText env numberOrChatId message) w =
     snd (sendWhatsAppMessage env numberOrChatId message w)"
| "step (SendMedia env numberOrChatId data caption sendAsDocument) w =
     snd (sendWhatsAppMedia env numberOrChatId data caption sendAsDocument w)"

definition run :: "action list \<Rightarrow> WhatsAppSingleton \<Rightarrow> WhatsAppSingleton" where
  "run acts w = fold step acts w"

definition initializeCalls :: "WhatsAppSingleton \<Rightarrow> nat" where
  "initializeCalls w = count_list (calls w) Initialize"

subsection \<open>A relation between two states of the singleton\<close>

text \<open>\<open>deliveries ls es\<close> are the listener invocations that emitting the events \<open>es\<close> to
  the listeners \<open>ls\<close> makes. \<open>broadcasts w w'\<close> says that, from \<open>w\<close> to \<open>w'\<close>, the
  listener array has stayed as it is, events have only been added to the trace of emitted
  events, and each of them has been delivered to every listener. It is used in the proofs
  only.\<close>

definition deliveries :: "listener list \<Rightarrow> WhatsAppEvent list \<Rightarrow> (listener \<times> WhatsAppEvent) list" where
  "deliveries ls es = concat (map (\<lambda>e. map (\<lambda>l. (l, e)) ls) es)"

definition broadcasts :: "WhatsAppSingleton \<Rightarrow> WhatsAppSingleton \<Rightarrow> bool" where
  "broadcasts w w' =
     (listeners w' = listeners w \<and>
      take (length (emitted w)) (emitted w') = emitted w \<and>
      delivered w' =
        delivered w @ deliveries (listeners w) (drop (length (emitted w)) (emitted w')))"

subsection \<open>Example inputs\<close>

text \<open>Three inputs used in the examples below: a run of \<^verbatim>\<open>initialize()\<close> that resolves
  without an event, one that rejects with \<^verbatim>\<open>new Error('boom')\<close>, and a client that becomes
  ready while \<^verbatim>\<open>initialize()\<close> is pending, knows every number, and whose \<^verbatim>\<open>sendMessage\<close>
  has the given outcome.\<close>

abbreviation quietInit :: init_run where
  "quietInit \<equiv> \<lparr>during = [], rejects = None\<rparr>"

abbreviation failingInit :: init_run where
  "failingInit \<equiv> \<lparr>during = [], rejects = Some (JsError ''boom'')\<rparr>"

abbreviation readyClient :: "thrown option \<Rightarrow> client_env" where
  "readyClient outcome \<equiv>
     \<lparr>initialize = \<lparr>during = [Emitted (C_ready NoPage)], rejects = None\<rparr>, selfWid = [],
      getNumberId = (\<lambda>digits. Inr (digits @ ''@c.us'')), evaluate = NoPage,
      sendMessage = outcome\<rparr>"

section \<open>Basic facts about the operations\<close>

subsection \<open>What each step leaves alone\<close>

lemma emit_fields [simp]:
  "state (emit e w) = state w"
  "calls (emit e w) = calls w"
  "listeners (emit e w) = listeners w"
  "clientWired (emit e w) = clientWired w"
  "emitted (emit e w) = emitted w @ [e]"
  by (simp_all add: emit_def)

lemma status_emit [simp]: "getWhatsAppStatus (emit e w) = getWhatsAppStatus w"
  by (simp add: getWhatsAppStatus_def)

lemma emitState_fields [simp]:
  "state (emitState w) = state w"
  "calls (emitState w) = calls w"
  "listeners (emitState w) = listeners w"
  "clientWired (emitState w) = clientWired w"
  "emitted (emitState w) = emitted w @ [E_state (getWhatsAppStatus w)]"
  by (simp_all add: emitState_def)

lemma patch_fields [simp]:
  "status (state (patchInjectedWWebJSIfNeeded p w)) = status (state w)"
  "qr (state (patchInjectedWWebJSIfNeeded p w)) = qr (state w)"
  "lastError (state (patchInjectedWWebJSIfNeeded p w)) = lastError (state w)"
  "initialized (state (patchInjectedWWebJSIfNeeded p w)) = initialized (state w)"
  "listenersAttached (state (patchInjectedWWebJSIfNeeded p w)) = listenersAttached (state w)"
  "listeners (patchInjectedWWebJSIfNeeded p w) = listeners w"
  "clientWired (patchInjectedWWebJSIfNeeded p w) = clientWired w"
  "emitted (patchInjectedWWebJSIfNeeded p w) = emitted w"
  "delivered (patchInjectedWWebJSIfNeeded p w) = delivered w"
  by (cases p; simp add: patchInjectedWWebJSIfNeeded_def)+

lemma voidPatch_fields [simp]:
  "status (state (voidPatchInjectedWWebJSIfNeeded p w)) = status (state w)"
  "qr (state (voidPatchInjectedWWebJSIfNeeded p w)) = qr (state w)"
  "lastError (state (voidPatchInjectedWWebJSIfNeeded p w)) = lastError (state w)"
  "initialized (state (voidPatchInjectedWWebJSIfNeeded p w)) = initialized (state w)"
  "listenersAttached (state (voidPatchInjectedWWebJSIfNeeded p w)) = listenersAttached (state w)"
  "injectedPatched (state (voidPatchInjectedWWebJSIfNeeded p w)) = injectedPatched (state w)"
  "listeners (voidPatchInjectedWWebJSIfNeeded p w) = listeners w"
  "clientWired (voidPatchInjectedWWebJSIfNeeded p w) = clientWired w"
  "emitted (voidPatchInjectedWWebJSIfNeeded p w) = emitted w"
  "delivered (voidPatchInjectedWWebJSIfNeeded p w) = delivered w"
  by (cases p; simp add: voidPatchInjectedWWebJSIfNeeded_def)+

lemma evaluateSettles_fields [simp]:
  "status (state (evaluateSettles w)) = status (state w)"
  "qr (state (evaluateSettles w)) = qr (state w)"
  "lastError (state (evaluateSettles w)) = lastError (state w)"
  "initialized (state (evaluateSettles w)) = initialized (state w)"
  "listenersAttached (state (evaluateSettles w)) = listenersAttached (state w)"
  "listeners (evaluateSettles w) = listeners w"
  "clientWired (evaluateSettles w) = clientWired w"
  "calls (evaluateSettles w) = calls w"
  "emitted (evaluateSettles w) = emitted w"
  "delivered (evaluateSettles w) = delivered w"
  by (simp_all add: evaluateSettles_def split: list.split)

lemma attach_fields [simp]:
  "status (state (attachListenersIfNeeded w)) = status (state w)"
  "qr (state (attachListenersIfNeeded w)) = qr (state w)"
  "lastError (state (attachListenersIfNeeded w)) = lastError (state w)"
  "initialized (state (attachListenersIfNeeded w)) = initialized (state w)"
  "injectedPatched (state (attachListenersIfNeeded w)) = injectedPatched (state w)"
  "listenersAttached (state (attachListenersIfNeeded w)) = True"
  "calls (attachListenersIfNeeded w) = calls w"
  "emitted (attachListenersIfNeeded w) = emitted w"
  "delivered (attachListenersIfNeeded w) = delivered w"
  "listeners (attachListenersIfNeeded w) = listeners w"
  by (simp_all add: attachListenersIfNeeded_def)

lemma attach_idem [simp]:
  "attachListenersIfNeeded (attachListenersIfNeeded w) = attachListenersIfNeeded w"
  by (simp add: attachListenersIfNeeded_def)

lemma attach_status [simp]: "getWhatsAppStatus (attachListenersIfNeeded w) = getWhatsAppStatus w"
  by (simp add: getWhatsAppStatus_def)

lemma enter_fields [simp]:
  "status (state (enterInitializing w)) = S_initializing"
  "qr (state (enterInitializing w)) = qr (state w)"
  "lastError (state (enterInitializing w)) = None"
  "initialized (state (enterInitializing w)) = initialized (state w)"
  "calls (enterInitializing w) = calls w"
  "listeners (enterInitializing w) = listeners w"
  "emitted (enterInitializing w) =
     emitted w @ [E_state \<lparr>status = S_initializing, qr = qr (state w), lastError = None\<rparr>]"
  by (simp_all add: enterInitializing_def Let_def getWhatsAppStatus_def)

lemma initializeRejected_fields [simp]:
  "status (state (initializeRejected e w)) = S_error"
  "qr (state (initializeRejected e w)) = qr (state w)"
  "lastError (state (initializeRejected e w)) = Some (initFailureMessage e)"
  "initialized (state (initializeRejected e w)) = False"
  "listeners (initializeRejected e w) = listeners w"
  "calls (initializeRejected e w) = calls w"
  "emitted (initializeRejected e w) =
     emitted w @ [E_error (initFailureMessage e),
       E_state \<lparr>status = S_error, qr = qr (state w), lastError = Some (initFailureMessage e)\<rparr>]"
  by (simp_all add: initializeRejected_def Let_def getWhatsAppStatus_def)

subsection \<open>start\<close>

lemma start_result: "fst (startWhatsApp r w) = Inr (getWhatsAppStatus (snd (startWhatsApp r w)))"
  by (simp add: startWhatsApp_def Let_def)

lemma start_active:
  assumes "status (state w) = S_ready \<or> status (state w) = S_initializing \<or> status (state w) = S_qr"
  shows "startWhatsApp r w = (Inr (getWhatsAppStatus w), attachListenersIfNeeded w)"
  using assms by (auto simp add: startWhatsApp_def Let_def)

lemma start_inactive:
  assumes "status (state w) = S_idle \<or> status (state w) = S_disconnected \<or> status (state w) = S_error"
  shows "snd (startWhatsApp r w) =
           (if initialized (state w) then enterInitializing (attachListenersIfNeeded w)
            else callInitialize r (enterInitializing (attachListenersIfNeeded w)))"
    and "fst (startWhatsApp r w) = Inr (getWhatsAppStatus (snd (startWhatsApp r w)))"
  using assms by (auto simp add: startWhatsApp_def Let_def)

lemma starts_active:
  assumes "status (state w) = S_ready \<or> status (state w) = S_initializing \<or> status (state w) = S_qr"
  shows "run (map Start rs) w = w \<or> run (map Start rs) w = attachListenersIfNeeded w"
  using assms
proof (induction rs arbitrary: w)
  case Nil
  then show ?case by (simp add: run_def)
next
  case (Cons r rs)
  have a: "status (state (attachListenersIfNeeded w)) = S_ready \<or>
           status (state (attachListenersIfNeeded w)) = S_initializing \<or>
           status (state (attachListenersIfNeeded w)) = S_qr"
    using Cons.prems by simp
  have "run (map Start (r # rs)) w = run (map Start rs) (attachListenersIfNeeded w)"
    using Cons.prems by (simp add: run_def start_active)
  with Cons.IH [OF a] show ?case by simp
qed

text \<open>Only \<open>callInitialize\<close> adds an \<^verbatim>\<open>initialize()\<close> call to the trace, and it adds one.\<close>

lemma patch_initialize:
  "count_list (calls (patchInjectedWWebJSIfNeeded p w)) Initialize = count_list (calls w) Initialize"
  "count_list (calls (voidPatchInjectedWWebJSIfNeeded p w)) Initialize = count_list (calls w) Initialize"
  by (cases p; simp add: patchInjectedWWebJSIfNeeded_def voidPatchInjectedWWebJSIfNeeded_def)+

lemma clientEmits_initialize:
  "count_list (calls (clientEmits ev w)) Initialize = count_list (calls w) Initialize"
  by (cases ev) (simp_all add: clientEmits_def onQr_def onReady_def onAuthFailure_def
      onDisconnected_def onMessage_def patch_initialize)

lemma happens_initialize:
  "count_list (calls (happens h w)) Initialize = count_list (calls w) Initialize"
  by (cases h) (simp_all add: clientEmits_initialize)

lemma fold_happens_initialize:
  "count_list (calls (fold happens hs w)) Initialize = count_list (calls w) Initialize"
  by (induction hs arbitrary: w) (simp_all add: happens_initialize)

lemma callInitialize_count:
  "initializeCalls (callInitialize r w) = initializeCalls w + 1"
  by (simp add: callInitialize_def initializeRejected_def initializeCalls_def Let_def
      fold_happens_initialize split: option.split)

lemma start_initialize_le:
  "initializeCalls (snd (startWhatsApp r w)) \<le> initializeCalls w + 1"
proof (cases "status (state w) = S_idle \<or> status (state w) = S_disconnected \<or> status (state w) = S_error")
  case True
  then show ?thesis
    by (simp add: start_inactive(1) callInitialize_count) (simp add: initializeCalls_def)
next
  case False
  then have "status (state w) = S_ready \<or> status (state w) = S_initializing \<or> status (state w) = S_qr"
    by (cases "status (state w)") simp_all
  then show ?thesis
    by (simp add: start_active initializeCalls_def)
qed

text \<open>Events are only ever appended to the trace of emitted events.\<close>

lemma clientEmits_emitted: "\<exists>mid. emitted (clientEmits ev w) = emitted w @ mid"
  by (cases ev) (simp_all add: clientEmits_def onQr_def onReady_def onAuthFailure_def
      onDisconnected_def onMessage_def)

lemma happens_emitted: "\<exists>mid. emitted (happens h w) = emitted w @ mid"
  by (cases h) (simp_all add: clientEmits_emitted)

lemma fold_happens_emitted: "\<exists>mid. emitted (fold happens hs w) = emitted w @ mid"
proof (induction hs arbitrary: w)
  case Nil
  then show ?case by simp
next
  case (Cons h hs)
  obtain m1 where m1: "emitted (happens h w) = emitted w @ m1"
    using happens_emitted by blast
  obtain m2 where "emitted (fold happens hs (happens h w)) = emitted (happens h w) @ m2"
    using Cons.IH by blast
  with m1 show ?case by simp
qed

lemma callInitialize_rejected:
  assumes "rejects r = Some e"
  shows "status (state (callInitialize r w)) = S_error"
    and "lastError (state (callInitialize r w)) = Some (initFailureMessage e)"
    and "initialized (state (callInitialize r w)) = False"
    and "\<exists>mid. emitted (callInitialize r w) =
           emitted w @ mid @ [E_error (initFailureMessage e), E_state (getWhatsAppStatus (callInitialize r w))]"
proof -
  let ?w1 = "w\<lparr>state := (state w)\<lparr>initialized := True\<rparr>, calls := calls w @ [Initialize]\<rparr>"
  have eq: "callInitialize r w = initializeRejected e (fold happens (during r) ?w1)"
    using assms by (simp add: callInitialize_def Let_def)
  show "status (state (callInitialize r w)) = S_error"
    and "lastError (state (callInitialize r w)) = Some (initFailureMessage e)"
    and "initialized (state (callInitialize r w)) = False"
    by (simp_all add: eq)
  obtain mid where "emitted (fold happens (during r) ?w1) = emitted ?w1 @ mid"
    using fold_happens_emitted by blast
  then have "emitted (callInitialize r w) =
      emitted w @ mid @ [E_error (initFailureMessage e), E_state (getWhatsAppStatus (callInitialize r w))]"
    by (simp add: eq getWhatsAppStatus_def)
  then show "\<exists>mid. emitted (callInitialize r w) =
           emitted w @ mid @ [E_error (initFailureMessage e), E_state (getWhatsAppStatus (callInitialize r w))]"
    by blast
qed

subsection \<open>Sending\<close>

text \<open>Nothing but the send operations themselves calls \<^verbatim>\<open>sendMessage\<close>.\<close>

lemma patch_sends [simp]:
  "filter isSendMessage (calls (patchInjectedWWebJSIfNeeded p w)) = filter isSendMessage (calls w)"
  "filter isSendMessage (calls (voidPatchInjectedWWebJSIfNeeded p w)) = filter isSendMessage (calls w)"
  by (cases p; simp add: patchInjectedWWebJSIfNeeded_def voidPatchInjectedWWebJSIfNeeded_def)+

lemma clientEmits_sends:
  "filter isSendMessage (calls (clientEmits ev w)) = filter isSendMessage (calls w)"
  by (cases ev) (simp_all add: clientEmits_def onQr_def onReady_def onAuthFailure_def
      onDisconnected_def onMessage_def)

lemma happens_sends:
  "filter isSendMessage (calls (happens h w)) = filter isSendMessage (calls w)"
  by (cases h) (simp_all add: clientEmits_sends)

lemma fold_happens_sends:
  "filter isSendMessage (calls (fold happens hs w)) = filter isSendMessage (calls w)"
  by (induction hs arbitrary: w) (simp_all add: happens_sends)

lemma start_sends: "sendMessageCalls (snd (startWhatsApp r w)) = sendMessageCalls w"
  by (simp add: startWhatsApp_def Let_def sendMessageCalls_def callInitialize_def
      fold_happens_sends split: option.split)

lemma resolve_sends:
  "sendMessageCalls (snd (resolveWhatsAppChatId env d w)) = sendMessageCalls w"
  by (simp add: resolveWhatsAppChatId_def Let_def sendMessageCalls_def split: sum.split)

lemma send_not_ready:
  assumes "fst (startWhatsApp (initialize env) w) = Inr st" and "status st \<noteq> S_ready"
  shows "sendWhatsAppMessage env dest message w =
           (Inl (JsError msgNotConnected), snd (startWhatsApp (initialize env) w))"
    and "sendWhatsAppMedia env dest data caption asDocument w =
           (Inl (JsError msgNotConnected), snd (startWhatsApp (initialize env) w))"
proof -
  obtain w1 where w1: "startWhatsApp (initialize env) w = (Inr st, w1)"
    using assms(1) by (cases "startWhatsApp (initialize env) w") simp
  show "sendWhatsAppMessage env dest message w =
           (Inl (JsError msgNotConnected), snd (startWhatsApp (initialize env) w))"
    using assms(2) by (simp add: sendWhatsAppMessage_def w1)
  show "sendWhatsAppMedia env dest data caption asDocument w =
           (Inl (JsError msgNotConnected), snd (startWhatsApp (initialize env) w))"
    using assms(2) by (simp add: sendWhatsAppMedia_def w1)
qed

lemma sendFailure_error:
  "sendFailure fallback (JsError m) = JsError (if noLidForUser m then msgNotOnWhatsApp else m)"
  by (simp add: sendFailure_def)

lemma not_on_whatsapp_no_lid: "\<not> noLidForUser msgNotOnWhatsApp"
  by (simp add: noLidForUser_def msgNotOnWhatsApp_def startsWith_def toLowerCase_def)

lemma contains_here: "startsWith (toLowerCase (c # cs)) p \<Longrightarrow> containsIgnoreCase (c # cs) p"
  by simp

lemma contains_short: "length s < length p \<Longrightarrow> \<not> containsIgnoreCase s p"
  by (induction s) (auto simp add: startsWith_def toLowerCase_def)

subsection \<open>The emitter\<close>

lemma received_map:
  "map snd (filter (\<lambda>d. fst d = l) (map (\<lambda>l'. (l', e)) ls)) = replicate (count_list ls l) e"
  by (induction ls) simp_all

lemma received_emit:
  "received l (emit e w) = received l w @ replicate (count_list (listeners w) l) e"
  by (simp add: received_def emit_def received_map)

lemma received_emit_once:
  "count_list (listeners w) l = 1 \<Longrightarrow> received l (emit e w) = received l w @ [e]"
  by (simp add: received_emit)

lemma received_emit_none:
  "l \<notin> set (listeners w) \<Longrightarrow> received l (emit e w) = received l w"
  by (simp add: received_emit)

lemma received_state_update [simp]:
  "received l (w\<lparr>state := s\<rparr>) = received l w"
  by (simp add: received_def)

lemma received_patch [simp]:
  "received l (patchInjectedWWebJSIfNeeded p w) = received l w"
  "received l (voidPatchInjectedWWebJSIfNeeded p w) = received l w"
  by (simp_all add: received_def)

lemma remove1_once: "count_list xs l \<le> 1 \<Longrightarrow> remove1 l xs = removeAll l xs"
  by (induction xs) (auto simp add: count_list_0_iff)

lemma off_once:
  assumes "count_list (listeners w) l = 1"
  shows "listeners (off l w) = removeAll l (listeners w)"
proof -
  have "count_list (rev (listeners w)) l \<le> 1"
    using assms by simp
  then have "remove1 l (rev (listeners w)) = removeAll l (rev (listeners w))"
    by (rule remove1_once)
  then show ?thesis
    by (simp add: off_def removeAll_filter_not_eq rev_filter)
qed

lemma off_absent: "l \<notin> set (listeners w) \<Longrightarrow> off l w = w"
  by (simp add: off_def remove1_idem)


text \<open>The patch that the handler of \<^verbatim>\<open>ready\<close> starts is pending until
  \<^verbatim>\<open>page.evaluate\<close> settles: the guard is set then, not by the handler.\<close>

lemma ready_leaves_patch_pending:
  assumes "clientWired w" and "\<not> injectedPatched (state w)" and "pendingEvaluate w = []"
  shows "\<not> injectedPatched (state (clientEmits (C_ready EvaluateResolves) w))"
    and "calls (clientEmits (C_ready EvaluateResolves) w) = calls w @ [Evaluate]"
    and "injectedPatched (state (evaluateSettles (clientEmits (C_ready EvaluateResolves) w)))"
  using assms
  by (simp_all add: clientEmits_def onReady_def voidPatchInjectedWWebJSIfNeeded_def
      evaluateSettles_def emitState_def emit_def)

subsection \<open>Every operation keeps the listeners and delivers what it emits\<close>

lemma deliveries_append: "deliveries ls (es @ es') = deliveries ls es @ deliveries ls es'"
  by (simp add: deliveries_def)

lemma broadcasts_iff:
  "broadcasts w w' \<longleftrightarrow>
     listeners w' = listeners w \<and>
     (\<exists>new. emitted w' = emitted w @ new \<and>
            delivered w' = delivered w @ deliveries (listeners w) new)"
proof
  assume b: "broadcasts w w'"
  then have "emitted w' = emitted w @ drop (length (emitted w)) (emitted w')"
    by (metis append_take_drop_id broadcasts_def)
  with b show "listeners w' = listeners w \<and>
     (\<exists>new. emitted w' = emitted w @ new \<and>
            delivered w' = delivered w @ deliveries (listeners w) new)"
    unfolding broadcasts_def by blast
next
  assume "listeners w' = listeners w \<and>
     (\<exists>new. emitted w' = emitted w @ new \<and>
            delivered w' = delivered w @ deliveries (listeners w) new)"
  then show "broadcasts w w'"
    by (auto simp add: broadcasts_def)
qed

lemma broadcasts_refl: "broadcasts w w"
  by (simp add: broadcasts_def deliveries_def)

lemma broadcasts_emit: "broadcasts w0 w \<Longrightarrow> broadcasts w0 (emit e w)"
proof -
  assume "broadcasts w0 w"
  then obtain new where l: "listeners w = listeners w0"
    and e: "emitted w = emitted w0 @ new"
    and d: "delivered w = delivered w0 @ deliveries (listeners w0) new"
    by (auto simp add: broadcasts_iff)
  have "emitted (emit e w) = emitted w0 @ (new @ [e])"
    by (simp add: e)
  moreover have "delivered (emit e w) = delivered w0 @ deliveries (listeners w0) (new @ [e])"
    by (simp add: emit_def d l deliveries_def)
  ultimately show ?thesis
    unfolding broadcasts_iff using l by (intro conjI exI [of _ "new @ [e]"]) simp_all
qed

lemma broadcasts_same:
  "broadcasts w0 w \<Longrightarrow> listeners w' = listeners w \<Longrightarrow> emitted w' = emitted w \<Longrightarrow>
   delivered w' = delivered w \<Longrightarrow> broadcasts w0 w'"
  by (simp add: broadcasts_iff)

lemma broadcasts_emitState: "broadcasts w0 w \<Longrightarrow> broadcasts w0 (emitState w)"
  by (simp add: emitState_def broadcasts_emit)

lemma broadcasts_state:
  "broadcasts w0 w \<Longrightarrow> broadcasts w0 (w\<lparr>state := s\<rparr>)"
  by (erule broadcasts_same) simp_all

lemma broadcasts_attach: "broadcasts w0 w \<Longrightarrow> broadcasts w0 (attachListenersIfNeeded w)"
  by (erule broadcasts_same) simp_all

lemma broadcasts_patch:
  "broadcasts w0 w \<Longrightarrow> broadcasts w0 (patchInjectedWWebJSIfNeeded p w)"
  "broadcasts w0 w \<Longrightarrow> broadcasts w0 (voidPatchInjectedWWebJSIfNeeded p w)"
  "broadcasts w0 w \<Longrightarrow> broadcasts w0 (evaluateSettles w)"
  by (erule broadcasts_same; simp)+

lemma broadcasts_clientEmits: "broadcasts w0 w \<Longrightarrow> broadcasts w0 (clientEmits ev w)"
  by (cases ev)
    (simp_all add: clientEmits_def onQr_def onReady_def onAuthFailure_def onDisconnected_def
      onMessage_def broadcasts_emitState broadcasts_emit broadcasts_state broadcasts_patch)

lemma broadcasts_happens: "broadcasts w0 w \<Longrightarrow> broadcasts w0 (happens h w)"
  by (cases h) (simp_all add: broadcasts_clientEmits broadcasts_patch)

lemma broadcasts_fold_happens: "broadcasts w0 w \<Longrightarrow> broadcasts w0 (fold happens hs w)"
  by (induction hs arbitrary: w) (simp_all add: broadcasts_happens)

lemma broadcasts_enter: "broadcasts w0 w \<Longrightarrow> broadcasts w0 (enterInitializing w)"
  by (simp add: enterInitializing_def Let_def broadcasts_emit broadcasts_state)

lemma broadcasts_rejected: "broadcasts w0 w \<Longrightarrow> broadcasts w0 (initializeRejected e w)"
  by (simp add: initializeRejected_def Let_def broadcasts_emitState broadcasts_emit broadcasts_state)

lemma broadcasts_calls: "broadcasts w0 w \<Longrightarrow> broadcasts w0 (w\<lparr>calls := c\<rparr>)"
  by (erule broadcasts_same) simp_all

lemma broadcasts_callInitialize: "broadcasts w0 w \<Longrightarrow> broadcasts w0 (callInitialize r w)"
proof -
  assume a: "broadcasts w0 w"
  have "broadcasts w0 (w\<lparr>state := (state w)\<lparr>initialized := True\<rparr>, calls := calls w @ [Initialize]\<rparr>)"
    using a by (rule broadcasts_same) simp_all
  then have "broadcasts w0 (fold happens (during r)
      (w\<lparr>state := (state w)\<lparr>initialized := True\<rparr>, calls := calls w @ [Initialize]\<rparr>))"
    by (rule broadcasts_fold_happens)
  then show ?thesis
    by (simp add: callInitialize_def Let_def broadcasts_rejected split: option.split)
qed

lemma broadcasts_start: "broadcasts w0 w \<Longrightarrow> broadcasts w0 (snd (startWhatsApp r w))"
  by (simp add: startWhatsApp_def Let_def broadcasts_attach broadcasts_enter
      broadcasts_callInitialize)

lemma broadcasts_reset:
  "broadcasts w0 w \<Longrightarrow> broadcasts w0 (snd (resetWhatsApp removeThrows destroyRejects w))"
proof -
  assume a: "broadcasts w0 w"
  let ?w2 = "w\<lparr>calls := calls w @ [RemoveAllListeners, Destroy]\<rparr>"
  let ?w4 = "?w2\<lparr>clientWired := False,
      state := (state ?w2)\<lparr>status := S_idle, qr := None, lastError := None, initialized := False,
        listenersAttached := False, injectedPatched := False\<rparr>\<rparr>"
  have "broadcasts w0 ?w4"
    using a by (rule broadcasts_same) simp_all
  then have "broadcasts w0 (emitState (attachListenersIfNeeded ?w4))"
    by (intro broadcasts_emitState broadcasts_attach)
  moreover have "snd (resetWhatsApp removeThrows destroyRejects w) =
      emitState (attachListenersIfNeeded ?w4)"
    by (simp add: resetWhatsApp_def tryCatch_def clientCall_def Let_def split: option.split)
  ultimately show ?thesis
    by simp
qed

lemma broadcasts_resolve:
  "broadcasts w0 w \<Longrightarrow> broadcasts w0 (snd (resolveWhatsAppChatId env d w))"
  by (simp add: resolveWhatsAppChatId_def Let_def broadcasts_calls split: sum.split)

lemma broadcasts_clientCall:
  "broadcasts w0 w \<Longrightarrow> broadcasts w0 (snd (tryCatch (clientCall c outcome w) (\<lambda>e w'. (Inl (f e), w'))))"
  by (simp add: tryCatch_def clientCall_def broadcasts_calls split: option.split)

lemma broadcasts_sendText:
  "broadcasts w0 w \<Longrightarrow> broadcasts w0 (snd (sendWhatsAppMessage env d m w))"
proof -
  assume a: "broadcasts w0 w"
  obtain r1 w1 where w1: "startWhatsApp (initialize env) w = (r1, w1)"
    by (cases "startWhatsApp (initialize env) w")
  have b1: "broadcasts w0 w1"
    using broadcasts_start [OF a, of "initialize env"] by (simp add: w1)
  obtain r2 w2 where w2: "resolveWhatsAppChatId env d w1 = (r2, w2)"
    by (cases "resolveWhatsAppChatId env d w1")
  have b2: "broadcasts w0 w2"
    using broadcasts_resolve [OF b1, of env d] by (simp add: w2)
  show ?thesis
    using b1 b2
    by (simp add: sendWhatsAppMessage_def w1 w2 broadcasts_clientCall broadcasts_patch
        split: sum.split)
qed

lemma broadcasts_sendMedia:
  "broadcasts w0 w \<Longrightarrow> broadcasts w0 (snd (sendWhatsAppMedia env d data caption asDocument w))"
proof -
  assume a: "broadcasts w0 w"
  obtain r1 w1 where w1: "startWhatsApp (initialize env) w = (r1, w1)"
    by (cases "startWhatsApp (initialize env) w")
  have b1: "broadcasts w0 w1"
    using broadcasts_start [OF a, of "initialize env"] by (simp add: w1)
  obtain r2 w2 where w2: "resolveWhatsAppChatId env d w1 = (r2, w2)"
    by (cases "resolveWhatsAppChatId env d w1")
  have b2: "broadcasts w0 w2"
    using broadcasts_resolve [OF b1, of env d] by (simp add: w2)
  show ?thesis
    using b1 b2
    by (simp add: sendWhatsAppMedia_def w1 w2 broadcasts_clientCall broadcasts_patch
        split: sum.split)
qed

lemma broadcasts_step: "broadcasts w0 w \<Longrightarrow> broadcasts w0 (step a w)"
  by (cases a)
    (simp_all add: broadcasts_start broadcasts_reset broadcasts_clientEmits broadcasts_patch
      broadcasts_sendText broadcasts_sendMedia)

lemma broadcasts_fold_step: "broadcasts w0 w \<Longrightarrow> broadcasts w0 (fold step acts w)"
  by (induction acts arbitrary: w) (simp_all add: broadcasts_step)

lemma broadcasts_run: "broadcasts w (run acts w)"
  unfolding run_def by (rule broadcasts_fold_step) (rule broadcasts_refl)

lemma run_listeners: "listeners (run acts w) = listeners w"
  using broadcasts_run [of w acts] by (simp add: broadcasts_iff)

lemma received_deliveries:
  "map snd (filter (\<lambda>d. fst d = l) (deliveries ls es)) =
     concat (map (replicate (count_list ls l)) es)"
  by (induction es) (simp_all add: deliveries_def received_map)

lemma concat_singletons: "concat (map (replicate (Suc 0)) es) = es"
  by (induction es) simp_all

lemma broadcasts_received:
  assumes "broadcasts w w'" and "count_list (listeners w) l = 1"
  shows "received l w' = received l w @ drop (length (emitted w)) (emitted w')"
proof -
  obtain new where e: "emitted w' = emitted w @ new"
    and d: "delivered w' = delivered w @ deliveries (listeners w) new"
    using assms(1) by (auto simp add: broadcasts_iff)
  show ?thesis
    using assms(2) by (simp add: received_def e d received_deliveries concat_singletons)
qed

lemma broadcasts_received_none:
  assumes "broadcasts w w'" and "l \<notin> set (listeners w)"
  shows "received l w' = received l w"
proof -
  obtain new where d: "delivered w' = delivered w @ deliveries (listeners w) new"
    using assms(1) by (auto simp add: broadcasts_iff)
  show ?thesis
    using assms(2) by (simp add: received_def d received_deliveries)
qed

lemma received_off [simp]: "received l (off l' w) = received l w"
  by (simp add: received_def off_def)

lemma emitted_on_off [simp]:
  "emitted (on l w) = emitted w" "emitted (off l w) = emitted w"
  by (simp_all add: on_def off_def)

subsection \<open>Evaluating the examples\<close>

lemmas model_defs =
  createSingleton_def startWhatsApp_def attachListenersIfNeeded_def enterInitializing_def
  callInitialize_def initializeRejected_def initFailureMessage_def resetWhatsApp_def
  tryCatch_def clientCall_def clientEmits_def onQr_def onReady_def onAuthFailure_def
  onDisconnected_def onMessage_def orElse_def emitState_def emit_def getWhatsAppStatus_def
  patchInjectedWWebJSIfNeeded_def voidPatchInjectedWWebJSIfNeeded_def evaluateSettles_def
  run_def initializeCalls_def Let_def
  subscribeWhatsAppEvents_def on_def off_def received_def sendMessageCalls_def

lemma stripPrefix_short: "length d \<le> 13 \<Longrightarrow> stripPrefix d = d"
  by (subst stripPrefix.simps) simp

lemma stripPrefix_step:
  "startsWith d ''55'' \<Longrightarrow> length d > 13 \<Longrightarrow> stripPrefix d = stripPrefix (drop 2 d)"
  by (subst stripPrefix.simps) simp

lemma normalizeDigits_prefixed: "normalizeDigits ''5511999998888'' = ''5511999998888''"
  by (simp add: normalizeDigits_def isDigit_def stripPrefix_short startsWith_def)

lemma normalizeDigits_national: "normalizeDigits ''11999998888'' = ''5511999998888''"
  by (simp add: normalizeDigits_def isDigit_def stripPrefix_short startsWith_def)

lemma normalizeDigits_five_fives: "normalizeDigits ''5555511999998888'' = ''511999998888''"
proof -
  have "stripPrefix ''5555511999998888'' = stripPrefix ''55511999998888''"
    by (subst stripPrefix_step) (simp_all add: startsWith_def)
  also have "\<dots> = stripPrefix ''511999998888''"
    by (subst stripPrefix_step) (simp_all add: startsWith_def)
  also have "\<dots> = ''511999998888''"
    by (simp add: stripPrefix_short)
  finally show ?thesis
    by (simp add: normalizeDigits_def isDigit_def startsWith_def)
qed

lemma start_quiet:
  "startWhatsApp quietInit createSingleton =
     (Inr \<lparr>status = S_initializing, qr = None, lastError = None\<rparr>,
      \<lparr>state = \<lparr>status = S_initializing, qr = None, lastError = None, initialized = True,
                listenersAttached = True, injectedPatched = False\<rparr>,
       clientWired = True, listeners = [], calls = [Initialize],
       emitted = [E_state \<lparr>status = S_initializing, qr = None, lastError = None\<rparr>],
       delivered = [], pendingEvaluate = []\<rparr>)"
  by (simp add: model_defs)

lemma start_failing:
  "startWhatsApp failingInit createSingleton =
     (Inr \<lparr>status = S_error, qr = None, lastError = Some ''boom''\<rparr>,
      \<lparr>state = \<lparr>status = S_error, qr = None, lastError = Some ''boom'', initialized = False,
                listenersAttached = True, injectedPatched = False\<rparr>,
       clientWired = True, listeners = [], calls = [Initialize],
       emitted = [E_state \<lparr>status = S_initializing, qr = None, lastError = None\<rparr>, E_error ''boom'',
                  E_state \<lparr>status = S_error, qr = None, lastError = Some ''boom''\<rparr>],
       delivered = [], pendingEvaluate = []\<rparr>)"
  by (simp add: model_defs)

lemma start_ready:
  "startWhatsApp \<lparr>during = [Emitted (C_ready NoPage)], rejects = None\<rparr> createSingleton =
     (Inr \<lparr>status = S_ready, qr = None, lastError = None\<rparr>,
      \<lparr>state = \<lparr>status = S_ready, qr = None, lastError = None, initialized = True,
                listenersAttached = True, injectedPatched = False\<rparr>,
       clientWired = True, listeners = [], calls = [Initialize],
       emitted = [E_state \<lparr>status = S_initializing, qr = None, lastError = None\<rparr>, E_ready,
                  E_state \<lparr>status = S_ready, qr = None, lastError = None\<rparr>],
       delivered = [], pendingEvaluate = []\<rparr>)"
  by (simp add: model_defs)

lemma run_disconnected:
  "run [Start quietInit, ClientEmits (C_disconnected ''x'')] createSingleton =
     \<lparr>state = \<lparr>status = S_disconnected, qr = None, lastError = Some ''x'', initialized = True,
               listenersAttached = True, injectedPatched = False\<rparr>,
      clientWired = True, listeners = [], calls = [Initialize],
      emitted = [E_state \<lparr>status = S_initializing, qr = None, lastError = None\<rparr>,
                 E_disconnected ''x'',
                 E_state \<lparr>status = S_disconnected, qr = None, lastError = Some ''x''\<rparr>],
      delivered = [], pendingEvaluate = []\<rparr>"
  by (simp add: model_defs)


lemma resolve_national:
  "resolveWhatsAppChatId (readyClient outcome) ''11999998888'' w =
     (Inr ''5511999998888@c.us'', w\<lparr>calls := calls w @ [GetNumberId ''5511999998888'']\<rparr>)"
proof -
  have t: "trim ''11999998888'' = ''11999998888''"
    by (simp add: trim_def isWhiteSpace_def)
  have l: "toLowerCase ''11999998888'' \<noteq> ''me''" "toLowerCase ''11999998888'' \<noteq> ''self''"
    by (simp_all add: toLowerCase_def)
  have a: "\<not> includesChar ''11999998888'' (CHR ''@'')"
    by (simp add: includesChar_def)
  show ?thesis
    by (simp add: resolveWhatsAppChatId_def t l a normalizeDigits_national)
qed

lemma lower_no_lid: "toLowerCase ''No LID for user'' = ''no lid for user''"
  by (simp add: toLowerCase_def lowerChar_def upperCase_def lowerCase_def)

lemma no_lid_examples:
  "noLidForUser ''No LID for user''" "\<not> noLidForUser ''timeout''"
proof -
  have "startsWith (toLowerCase ''No LID for user'') ''no lid for user''"
    by (simp add: lower_no_lid startsWith_def)
  then show "noLidForUser ''No LID for user''"
    unfolding noLidForUser_def by (rule contains_here)
  show "\<not> noLidForUser ''timeout''"
    unfolding noLidForUser_def by (rule contains_short) simp
qed

lemma send_text_no_lid:
  "sendWhatsAppMessage (readyClient (Some (JsError ''No LID for user''))) ''11999998888'' ''oi''
      createSingleton =
    (Inl (JsError msgNotOnWhatsApp),
     \<lparr>state = \<lparr>status = S_ready, qr = None, lastError = None, initialized = True,
               listenersAttached = True, injectedPatched = False\<rparr>,
      clientWired = True, listeners = [],
      calls = [Initialize, GetNumberId ''5511999998888'',
               SendMessage ''5511999998888@c.us'' (Text ''oi'')],
      emitted = [E_state \<lparr>status = S_initializing, qr = None, lastError = None\<rparr>, E_ready,
                 E_state \<lparr>status = S_ready, qr = None, lastError = None\<rparr>],
      delivered = [], pendingEvaluate = []\<rparr>)"
proof -
  have t: "trim ''oi'' \<noteq> []"
    by (simp add: trim_def isWhiteSpace_def)
  show ?thesis
    by (simp add: sendWhatsAppMessage_def start_ready t resolve_national
        patchInjectedWWebJSIfNeeded_def clientCall_def tryCatch_def sendFailure_def no_lid_examples)
qed

lemma send_media_timeout:
  "sendWhatsAppMedia (readyClient (Some (JsError ''timeout''))) ''11999998888''
      \<lparr>mimeType = ''image/png'', base64 = ''AAAA'', filename = None\<rparr> None False createSingleton =
    (Inl (JsError ''timeout''),
     \<lparr>state = \<lparr>status = S_ready, qr = None, lastError = None, initialized = True,
               listenersAttached = True, injectedPatched = False\<rparr>,
      clientWired = True, listeners = [],
      calls = [Initialize, GetNumberId ''5511999998888'',
               SendMessage ''5511999998888@c.us'' (Media ''image/png'' ''AAAA'' None None False)],
      emitted = [E_state \<lparr>status = S_initializing, qr = None, lastError = None\<rparr>, E_ready,
                 E_state \<lparr>status = S_ready, qr = None, lastError = None\<rparr>],
      delivered = [], pendingEvaluate = []\<rparr>)"
proof -
  have t: "trim ''image/png'' = ''image/png''" "trim ''AAAA'' = ''AAAA''"
    by (simp_all add: trim_def isWhiteSpace_def)
  show ?thesis
    by (simp add: sendWhatsAppMedia_def start_ready t resolve_national trimmedOrUndefined_def
        patchInjectedWWebJSIfNeeded_def clientCall_def tryCatch_def sendFailure_def no_lid_examples)
qed

section \<open>C1: the pairing token outside the \<open>qr\<close> status\<close>

text \<open>
  Claim C1: in every state reachable by \<^verbatim>\<open>start()\<close>, \<^verbatim>\<open>reset()\<close> and the client events
  \<^verbatim>\<open>qr\<close>, \<^verbatim>\<open>ready\<close>, \<^verbatim>\<open>auth_failure\<close> and \<^verbatim>\<open>disconnected\<close>, the field \<^verbatim>\<open>qr\<close> is non-null
  only when the status is \<^verbatim>\<open>qr\<close>.

  The handlers of \<^verbatim>\<open>ready\<close> and \<^verbatim>\<open>reset()\<close> clear the token; the handlers of
  \<^verbatim>\<open>disconnected\<close> and \<^verbatim>\<open>auth_failure\<close> do not. After \<^verbatim>\<open>start()\<close>, a \<^verbatim>\<open>qr\<close> event with the
  token \<^verbatim>\<open>abc\<close> and a \<^verbatim>\<open>disconnected\<close> event, the status is \<^verbatim>\<open>disconnected\<close> and the
  token is still there.
\<close>

theorem C1_stale_qr_after_disconnect:
  "status (state (run [Start quietInit, ClientEmits (C_qr ''abc''),
                        ClientEmits (C_disconnected ''x'')] createSingleton)) = S_disconnected \<and>
   qr (state (run [Start quietInit, ClientEmits (C_qr ''abc''),
                    ClientEmits (C_disconnected ''x'')] createSingleton)) = Some ''abc''"
  by (simp add: model_defs)

section \<open>C2: digit normalisation, the three examples\<close>

text \<open>
  Claim C2, as stated: the third example, \<^verbatim>\<open>"5555511999998888"\<close>, is normalised to a digit
  string of the standard prefixed national length, 13. It is not: the loop removes
  \<^verbatim>\<open>55\<close> twice (16, 14, 12 digits) and stops at a 12-digit string that no longer starts
  with the prefix and is too long to get it prepended.
\<close>

theorem C2_counterexample:
  "length (normalizeDigits ''5555511999998888'') \<noteq> 13"
  by (simp add: normalizeDigits_five_fives)

text \<open>
  Claim C2, amended: the digit normalisation maps \<^verbatim>\<open>"5511999998888"\<close> to itself, maps
  \<^verbatim>\<open>"11999998888"\<close> to \<^verbatim>\<open>"5511999998888"\<close>, and maps \<^verbatim>\<open>"5555511999998888"\<close>, by stripping
  the domestic prefix twice, to \<^verbatim>\<open>"511999998888"\<close>: 12 digits, without the prefix.
\<close>

theorem C2_normalizeDigits_examples:
  "normalizeDigits ''5511999998888'' = ''5511999998888'' \<and>
   normalizeDigits ''11999998888'' = ''5511999998888'' \<and>
   normalizeDigits ''5555511999998888'' = ''511999998888'' \<and>
   length (normalizeDigits ''5555511999998888'') = 12 \<and>
   \<not> startsWith (normalizeDigits ''5555511999998888'') ''55''"
  by (simp add: normalizeDigits_prefixed normalizeDigits_national normalizeDigits_five_fives
      startsWith_def)

section \<open>C3: \<^verbatim>\<open>start()\<close> is idempotent while the session is active\<close>

text \<open>
  Claim C3: a call of \<^verbatim>\<open>start()\<close> while the status is \<^verbatim>\<open>ready\<close>, \<^verbatim>\<open>initializing\<close> or \<^verbatim>\<open>qr\<close>
  returns the current status snapshot, leaves the snapshot as it is and does not call
  \<^verbatim>\<open>initialize()\<close> (nor emit an event); so any sequence of \<^verbatim>\<open>start()\<close> calls from such a state
  adds no \<^verbatim>\<open>initialize()\<close> call, and a sequence of \<^verbatim>\<open>start()\<close> calls from any state, whose first
  call leaves the status in one of the three, calls \<^verbatim>\<open>initialize()\<close> at most once.
\<close>

theorem C3_start_idempotent:
  "(status (state w) = S_ready \<or> status (state w) = S_initializing \<or> status (state w) = S_qr \<longrightarrow>
      fst (startWhatsApp r w) = Inr (getWhatsAppStatus w) \<and>
      getWhatsAppStatus (snd (startWhatsApp r w)) = getWhatsAppStatus w \<and>
      calls (snd (startWhatsApp r w)) = calls w \<and>
      emitted (snd (startWhatsApp r w)) = emitted w \<and>
      getWhatsAppStatus (run (map Start rs) w) = getWhatsAppStatus w \<and>
      initializeCalls (run (map Start rs) w) = initializeCalls w) \<and>
   (status (state (snd (startWhatsApp r w))) = S_ready \<or>
    status (state (snd (startWhatsApp r w))) = S_initializing \<or>
    status (state (snd (startWhatsApp r w))) = S_qr \<longrightarrow>
      initializeCalls (run (map Start (r # rs)) w) \<le> initializeCalls w + 1)"
proof (intro conjI impI)
  assume a: "status (state (snd (startWhatsApp r w))) = S_ready \<or>
    status (state (snd (startWhatsApp r w))) = S_initializing \<or>
    status (state (snd (startWhatsApp r w))) = S_qr"
  have "run (map Start (r # rs)) w = run (map Start rs) (snd (startWhatsApp r w))"
    by (simp add: run_def)
  with starts_active [OF a, of rs]
  have "initializeCalls (run (map Start (r # rs)) w) = initializeCalls (snd (startWhatsApp r w))"
    by (auto simp add: initializeCalls_def)
  with start_initialize_le [of r w]
  show "initializeCalls (run (map Start (r # rs)) w) \<le> initializeCalls w + 1"
    by simp
next
  assume a: "status (state w) = S_ready \<or> status (state w) = S_initializing \<or> status (state w) = S_qr"
  show "fst (startWhatsApp r w) = Inr (getWhatsAppStatus w)"
    "getWhatsAppStatus (snd (startWhatsApp r w)) = getWhatsAppStatus w"
    "calls (snd (startWhatsApp r w)) = calls w"
    "emitted (snd (startWhatsApp r w)) = emitted w"
    by (simp_all add: start_active [OF a])
  from starts_active [OF a, of rs]
  show "getWhatsAppStatus (run (map Start rs) w) = getWhatsAppStatus w"
    "initializeCalls (run (map Start rs) w) = initializeCalls w"
    by (auto simp add: initializeCalls_def)
qed

text \<open>The witness: the state after a first \<^verbatim>\<open>start()\<close> is \<^verbatim>\<open>initializing\<close>; a second call
  returns that snapshot, and three calls in a row invoke \<^verbatim>\<open>initialize()\<close> once.\<close>

theorem C3_witness:
  "status (state (snd (startWhatsApp quietInit createSingleton))) = S_initializing \<and>
   fst (startWhatsApp quietInit (snd (startWhatsApp quietInit createSingleton))) =
     Inr \<lparr>status = S_initializing, qr = None, lastError = None\<rparr> \<and>
   initializeCalls (run (map Start [quietInit, quietInit, quietInit]) createSingleton) \<le> 1"
  using C3_start_idempotent [of "snd (startWhatsApp quietInit createSingleton)" quietInit "[]"]
        C3_start_idempotent [of createSingleton quietInit "[quietInit, quietInit]"]
  unfolding start_quiet
  by (simp add: model_defs)

section \<open>C4: \<^verbatim>\<open>start()\<close> after a disconnect, with the guard still set\<close>

text \<open>
  Claim C4: if \<^verbatim>\<open>start()\<close> is called while the status is \<^verbatim>\<open>disconnected\<close> or \<^verbatim>\<open>error\<close> and
  the guard \<^verbatim>\<open>initialized\<close> is still set, the call sets the status to \<^verbatim>\<open>initializing\<close>,
  emits one \<^verbatim>\<open>state\<close> event and returns without calling \<^verbatim>\<open>initialize()\<close>. The session then
  stays in \<^verbatim>\<open>initializing\<close>: further \<^verbatim>\<open>start()\<close> calls and send operations neither change the
  snapshot nor call \<^verbatim>\<open>initialize()\<close>; only a client event or \<^verbatim>\<open>reset()\<close> can.
\<close>

theorem C4_start_guarded:
  assumes "status (state w) = S_disconnected \<or> status (state w) = S_error"
    and "initialized (state w)"
  shows "fst (startWhatsApp r w) = Inr \<lparr>status = S_initializing, qr = qr (state w), lastError = None\<rparr> \<and>
         getWhatsAppStatus (snd (startWhatsApp r w)) =
           \<lparr>status = S_initializing, qr = qr (state w), lastError = None\<rparr> \<and>
         emitted (snd (startWhatsApp r w)) =
           emitted w @ [E_state \<lparr>status = S_initializing, qr = qr (state w), lastError = None\<rparr>] \<and>
         calls (snd (startWhatsApp r w)) = calls w \<and>
         getWhatsAppStatus (run (map Start rs) (snd (startWhatsApp r w))) =
           \<lparr>status = S_initializing, qr = qr (state w), lastError = None\<rparr> \<and>
         calls (run (map Start rs) (snd (startWhatsApp r w))) = calls w \<and>
         getWhatsAppStatus (snd (sendWhatsAppMessage env dest message (snd (startWhatsApp r w)))) =
           \<lparr>status = S_initializing, qr = qr (state w), lastError = None\<rparr> \<and>
         calls (snd (sendWhatsAppMessage env dest message (snd (startWhatsApp r w)))) = calls w \<and>
         getWhatsAppStatus
           (snd (sendWhatsAppMedia env dest data caption asDocument (snd (startWhatsApp r w)))) =
           \<lparr>status = S_initializing, qr = qr (state w), lastError = None\<rparr> \<and>
         calls (snd (sendWhatsAppMedia env dest data caption asDocument (snd (startWhatsApp r w)))) =
           calls w"
proof -
  let ?w' = "snd (startWhatsApp r w)"
  have g: "status (state w) = S_idle \<or> status (state w) = S_disconnected \<or> status (state w) = S_error"
    using assms(1) by blast
  have eq: "?w' = enterInitializing (attachListenersIfNeeded w)"
    using assms(2) by (simp add: start_inactive(1) [OF g])
  have s: "getWhatsAppStatus ?w' = \<lparr>status = S_initializing, qr = qr (state w), lastError = None\<rparr>"
    by (simp add: eq getWhatsAppStatus_def)
  have c: "calls ?w' = calls w"
    by (simp add: eq)
  have a: "status (state ?w') = S_ready \<or> status (state ?w') = S_initializing \<or> status (state ?w') = S_qr"
    by (simp add: eq)
  have "run (map Start rs) ?w' = ?w' \<or> run (map Start rs) ?w' = attachListenersIfNeeded ?w'"
    by (rule starts_active [OF a])
  then have again: "getWhatsAppStatus (run (map Start rs) ?w') = getWhatsAppStatus ?w'"
    "calls (run (map Start rs) ?w') = calls ?w'"
    by auto
  have inner: "startWhatsApp (initialize env) ?w' =
      (Inr (getWhatsAppStatus ?w'), attachListenersIfNeeded ?w')"
    by (rule start_active [OF a])
  have nr: "status (getWhatsAppStatus ?w') \<noteq> S_ready"
    by (simp add: s)
  have i: "fst (startWhatsApp (initialize env) ?w') = Inr (getWhatsAppStatus ?w')"
    by (simp add: inner)
  have viaText: "snd (sendWhatsAppMessage env dest message ?w') = attachListenersIfNeeded ?w'"
    by (simp add: send_not_ready(1) [OF i nr] inner)
  have viaMedia: "snd (sendWhatsAppMedia env dest data caption asDocument ?w') =
      attachListenersIfNeeded ?w'"
    by (simp add: send_not_ready(2) [OF i nr] inner)
  have r: "fst (startWhatsApp r w) =
      Inr \<lparr>status = S_initializing, qr = qr (state w), lastError = None\<rparr>"
    by (simp add: start_result s)
  have e: "emitted ?w' =
      emitted w @ [E_state \<lparr>status = S_initializing, qr = qr (state w), lastError = None\<rparr>]"
    by (simp add: eq)
  show ?thesis
    by (simp only: r s c e again viaText viaMedia attach_status attach_fields simp_thms)
qed

text \<open>The witness: after \<^verbatim>\<open>start()\<close> and a \<^verbatim>\<open>disconnected\<close> event the status is
  \<^verbatim>\<open>disconnected\<close> and the guard is set; the next \<^verbatim>\<open>start()\<close> reports \<^verbatim>\<open>initializing\<close> and the
  trace of client calls still holds the one \<^verbatim>\<open>initialize()\<close> of the first.\<close>

theorem C4_witness:
  "status (state (run [Start quietInit, ClientEmits (C_disconnected ''x'')] createSingleton)) =
     S_disconnected \<and>
   initialized (state (run [Start quietInit, ClientEmits (C_disconnected ''x'')] createSingleton)) \<and>
   fst (startWhatsApp quietInit
         (run [Start quietInit, ClientEmits (C_disconnected ''x'')] createSingleton)) =
     Inr \<lparr>status = S_initializing, qr = None, lastError = None\<rparr> \<and>
   calls (snd (startWhatsApp quietInit
         (run [Start quietInit, ClientEmits (C_disconnected ''x'')] createSingleton))) = [Initialize]"
  using C4_start_guarded
    [of "run [Start quietInit, ClientEmits (C_disconnected ''x'')] createSingleton" quietInit "[]"
        "readyClient None" "[]" "[]" "\<lparr>mimeType = [], base64 = [], filename = None\<rparr>" None False]
  unfolding run_disconnected
  by simp

section \<open>C5: \<^verbatim>\<open>reset()\<close>\<close>

text \<open>
  Claim C5, as stated: after \<^verbatim>\<open>reset()\<close> the guards \<^verbatim>\<open>initialized\<close>, \<^verbatim>\<open>listenersAttached\<close> and
  \<^verbatim>\<open>injectedPatched\<close> are all cleared. The guard \<^verbatim>\<open>listenersAttached\<close> is not: \<^verbatim>\<open>reset()\<close>
  clears it and then calls \<^verbatim>\<open>attachListenersIfNeeded()\<close>, which sets it again for the new
  client.
\<close>

theorem C5_counterexample:
  "listenersAttached (state (snd (resetWhatsApp None None createSingleton)))"
  by (simp add: model_defs)

text \<open>
  Claim C5, amended: \<^verbatim>\<open>reset()\<close> returns normally whatever \<^verbatim>\<open>removeAllListeners()\<close> and
  \<^verbatim>\<open>destroy()\<close> of the old client throw (both are called); it returns, and \<^verbatim>\<open>getStatus()\<close>
  then yields, the snapshot \<^verbatim>\<open>{status: idle, qr: null, lastError: null}\<close>, which it also emits
  as a \<^verbatim>\<open>state\<close> event; the guards \<^verbatim>\<open>initialized\<close> and \<^verbatim>\<open>injectedPatched\<close> are cleared, and
  the guard \<^verbatim>\<open>listenersAttached\<close> is set, the handlers being registered on the new client.
\<close>

theorem C5_reset:
  "fst (resetWhatsApp removeThrows destroyRejects w) =
     Inr \<lparr>status = S_idle, qr = None, lastError = None\<rparr> \<and>
   getWhatsAppStatus (snd (resetWhatsApp removeThrows destroyRejects w)) =
     \<lparr>status = S_idle, qr = None, lastError = None\<rparr> \<and>
   initialized (state (snd (resetWhatsApp removeThrows destroyRejects w))) = False \<and>
   injectedPatched (state (snd (resetWhatsApp removeThrows destroyRejects w))) = False \<and>
   listenersAttached (state (snd (resetWhatsApp removeThrows destroyRejects w))) = True \<and>
   clientWired (snd (resetWhatsApp removeThrows destroyRejects w)) = True \<and>
   calls (snd (resetWhatsApp removeThrows destroyRejects w)) =
     calls w @ [RemoveAllListeners, Destroy] \<and>
   emitted (snd (resetWhatsApp removeThrows destroyRejects w)) =
     emitted w @ [E_state \<lparr>status = S_idle, qr = None, lastError = None\<rparr>]"
  by (simp add: resetWhatsApp_def tryCatch_def clientCall_def attachListenersIfNeeded_def
      getWhatsAppStatus_def Let_def split: option.split)

section \<open>C6: \<^verbatim>\<open>initialize()\<close> rejects\<close>

text \<open>
  Claim C6: if \<^verbatim>\<open>start()\<close> reaches \<^verbatim>\<open>client.initialize()\<close> (the status is none of \<^verbatim>\<open>ready\<close>,
  \<^verbatim>\<open>initializing\<close>, \<^verbatim>\<open>qr\<close>, and the guard \<^verbatim>\<open>initialized\<close> is clear) and the call rejects with
  \<open>e\<close>, then \<^verbatim>\<open>start()\<close> returns normally with the resulting snapshot, whose status is
  \<^verbatim>\<open>error\<close> and whose \<^verbatim>\<open>lastError\<close> is the message of \<open>e\<close> (for an \<^verbatim>\<open>Error\<close> with message
  \<open>m\<close>, that is \<open>m\<close>); the guard is clear again; the events emitted end with an \<^verbatim>\<open>error\<close>
  event followed by a \<^verbatim>\<open>state\<close> event; \<^verbatim>\<open>initialize()\<close> has been called once, and the next
  \<^verbatim>\<open>start()\<close> calls it again.
\<close>

theorem C6_initialize_rejected:
  assumes "status (state w) = S_idle \<or> status (state w) = S_disconnected \<or> status (state w) = S_error"
    and "\<not> initialized (state w)"
    and "rejects r = Some e"
  shows "fst (startWhatsApp r w) =
           Inr \<lparr>status = S_error, qr = qr (state (snd (startWhatsApp r w))),
                lastError = Some (initFailureMessage e)\<rparr> \<and>
         status (state (snd (startWhatsApp r w))) = S_error \<and>
         lastError (state (snd (startWhatsApp r w))) = Some (initFailureMessage e) \<and>
         initFailureMessage (JsError m) = m \<and>
         initialized (state (snd (startWhatsApp r w))) = False \<and>
         (\<exists>mid. emitted (snd (startWhatsApp r w)) =
            emitted w @ [E_state \<lparr>status = S_initializing, qr = qr (state w), lastError = None\<rparr>] @ mid @
              [E_error (initFailureMessage e), E_state (getWhatsAppStatus (snd (startWhatsApp r w)))]) \<and>
         initializeCalls (snd (startWhatsApp r w)) = initializeCalls w + 1 \<and>
         initializeCalls (snd (startWhatsApp r' (snd (startWhatsApp r w)))) =
           initializeCalls (snd (startWhatsApp r w)) + 1"
proof -
  let ?w0 = "enterInitializing (attachListenersIfNeeded w)"
  let ?w' = "snd (startWhatsApp r w)"
  have eq: "?w' = callInitialize r ?w0"
    using assms(2) by (simp add: start_inactive(1) [OF assms(1)])
  note rej = callInitialize_rejected [OF assms(3), of ?w0]
  have st: "status (state ?w') = S_error" "lastError (state ?w') = Some (initFailureMessage e)"
    "initialized (state ?w') = False"
    by (simp_all add: eq rej)
  obtain mid where "emitted (callInitialize r ?w0) =
      emitted ?w0 @ mid @ [E_error (initFailureMessage e), E_state (getWhatsAppStatus (callInitialize r ?w0))]"
    using rej(4) by blast
  then have "emitted ?w' = emitted w @ [E_state \<lparr>status = S_initializing, qr = qr (state w), lastError = None\<rparr>] @ mid @
              [E_error (initFailureMessage e), E_state (getWhatsAppStatus ?w')]"
    by (simp add: eq)
  then have em: "\<exists>mid. emitted ?w' = emitted w @ [E_state \<lparr>status = S_initializing, qr = qr (state w), lastError = None\<rparr>] @ mid @
              [E_error (initFailureMessage e), E_state (getWhatsAppStatus ?w')]"
    by blast
  have ic: "initializeCalls ?w' = initializeCalls w + 1"
    by (simp add: eq callInitialize_count) (simp add: initializeCalls_def)
  have g': "status (state ?w') = S_idle \<or> status (state ?w') = S_disconnected \<or> status (state ?w') = S_error"
    using st by simp
  have again: "initializeCalls (snd (startWhatsApp r' ?w')) = initializeCalls ?w' + 1"
    using st(3) by (simp add: start_inactive(1) [OF g'] callInitialize_count) (simp add: initializeCalls_def)
  have res: "fst (startWhatsApp r w) = Inr \<lparr>status = S_error, qr = qr (state ?w'),
                lastError = Some (initFailureMessage e)\<rparr>"
    using st by (simp add: start_inactive(2) [OF assms(1)] getWhatsAppStatus_def)
  have msg: "initFailureMessage (JsError m) = m"
    by (simp add: initFailureMessage_def)
  from res st em ic again msg show ?thesis
    by blast
qed

text \<open>The witness: the first \<^verbatim>\<open>start()\<close> of a fresh singleton, with \<^verbatim>\<open>initialize()\<close>
  rejecting; a second \<^verbatim>\<open>start()\<close> brings the number of \<^verbatim>\<open>initialize()\<close> calls to two.\<close>

theorem C6_witness:
  "status (state createSingleton) = S_idle \<and>
   initialized (state createSingleton) = False \<and>
   fst (startWhatsApp failingInit createSingleton) =
     Inr \<lparr>status = S_error, qr = None, lastError = Some ''boom''\<rparr> \<and>
   initializeCalls (snd (startWhatsApp failingInit (snd (startWhatsApp failingInit createSingleton)))) = 2"
  using C6_initialize_rejected [of createSingleton failingInit "JsError ''boom''" "''boom''" failingInit]
  by (simp add: start_failing) (simp add: model_defs)

section \<open>C7: sending while not connected\<close>

text \<open>
  Claim C7: for every destination and message, if the status that the internal \<^verbatim>\<open>start()\<close>
  call reports is not \<^verbatim>\<open>ready\<close>, then \<^verbatim>\<open>sendText\<close>, and likewise \<^verbatim>\<open>sendMedia\<close>, fails with the
  error \<^verbatim>\<open>NotConnected\<close>, nothing happens after the internal \<^verbatim>\<open>start()\<close>, and \<^verbatim>\<open>sendMessage\<close>
  of the underlying client is not called.
\<close>

theorem C7_not_connected:
  assumes "fst (startWhatsApp (initialize env) w) = Inr st" and "status st \<noteq> S_ready"
  shows "fst (sendWhatsAppMessage env dest message w) = Inl (JsError msgNotConnected) \<and>
         snd (sendWhatsAppMessage env dest message w) = snd (startWhatsApp (initialize env) w) \<and>
         sendMessageCalls (snd (sendWhatsAppMessage env dest message w)) = sendMessageCalls w \<and>
         fst (sendWhatsAppMedia env dest data caption asDocument w) = Inl (JsError msgNotConnected) \<and>
         snd (sendWhatsAppMedia env dest data caption asDocument w) = snd (startWhatsApp (initialize env) w) \<and>
         sendMessageCalls (snd (sendWhatsAppMedia env dest data caption asDocument w)) = sendMessageCalls w"
  by (simp add: send_not_ready [OF assms] start_sends)

text \<open>The witness: a fresh singleton whose client does not become ready during
  \<^verbatim>\<open>initialize()\<close>.\<close>

theorem C7_witness:
  "fst (startWhatsApp quietInit createSingleton) =
     Inr \<lparr>status = S_initializing, qr = None, lastError = None\<rparr> \<and>
   fst (sendWhatsAppMessage
          \<lparr>initialize = quietInit, selfWid = [], getNumberId = (\<lambda>d. Inr (d @ ''@c.us'')),
            evaluate = NoPage, sendMessage = None\<rparr>
          ''11999998888'' ''oi'' createSingleton) = Inl (JsError msgNotConnected) \<and>
   sendMessageCalls (snd (sendWhatsAppMessage
          \<lparr>initialize = quietInit, selfWid = [], getNumberId = (\<lambda>d. Inr (d @ ''@c.us'')),
            evaluate = NoPage, sendMessage = None\<rparr>
          ''11999998888'' ''oi'' createSingleton)) = []"
  using C7_not_connected
    [of "\<lparr>initialize = quietInit, selfWid = [], getNumberId = (\<lambda>d. Inr (d @ ''@c.us'')),
           evaluate = NoPage, sendMessage = None\<rparr>"
        createSingleton "\<lparr>status = S_initializing, qr = None, lastError = None\<rparr>"
        "''11999998888''" "''oi''"]
  by (simp add: start_quiet) (simp add: sendMessageCalls_def createSingleton_def)

section \<open>C8: classification of a failed \<^verbatim>\<open>sendMessage\<close>\<close>

text \<open>
  Claim C8: when \<^verbatim>\<open>sendText\<close> or \<^verbatim>\<open>sendMedia\<close> calls \<^verbatim>\<open>sendMessage\<close> of the underlying client
  and that call rejects with an \<^verbatim>\<open>Error\<close> of message \<open>m\<close>, the caller gets an error with the
  \<^verbatim>\<open>NotOnNetwork\<close> message if \<open>m\<close> matches \<^verbatim>\<open>/no lid for user/i\<close>, and an error with the
  message \<open>m\<close> otherwise. In the first case the message surfaced is not \<open>m\<close>.
\<close>

theorem C8_send_failure:
  assumes "sendMessage env = Some (JsError m)"
  shows "(sendMessageCalls (snd (sendWhatsAppMessage env dest message w)) \<noteq> sendMessageCalls w \<longrightarrow>
            fst (sendWhatsAppMessage env dest message w) =
              Inl (JsError (if noLidForUser m then msgNotOnWhatsApp else m))) \<and>
         (sendMessageCalls (snd (sendWhatsAppMedia env dest data caption asDocument w)) \<noteq> sendMessageCalls w \<longrightarrow>
            fst (sendWhatsAppMedia env dest data caption asDocument w) =
              Inl (JsError (if noLidForUser m then msgNotOnWhatsApp else m))) \<and>
         (noLidForUser m \<longrightarrow> m \<noteq> msgNotOnWhatsApp)"
proof (intro conjI impI)
  obtain r1 w1 where w1: "startWhatsApp (initialize env) w = (r1, w1)"
    by (cases "startWhatsApp (initialize env) w")
  have s1: "sendMessageCalls w1 = sendMessageCalls w"
    using start_sends [of "initialize env" w] by (simp add: w1)
  obtain r2 w2 where w2: "resolveWhatsAppChatId env dest w1 = (r2, w2)"
    by (cases "resolveWhatsAppChatId env dest w1")
  have s2: "sendMessageCalls w2 = sendMessageCalls w"
    using resolve_sends [of env dest w1] by (simp add: w2 s1)
  {
    assume "sendMessageCalls (snd (sendWhatsAppMessage env dest message w)) \<noteq> sendMessageCalls w"
    then show "fst (sendWhatsAppMessage env dest message w) =
              Inl (JsError (if noLidForUser m then msgNotOnWhatsApp else m))"
      using assms s1 s2
      by (auto simp add: sendWhatsAppMessage_def w1 w2 tryCatch_def clientCall_def sendFailure_error
          split: sum.splits if_splits)
  }
  {
    assume "sendMessageCalls (snd (sendWhatsAppMedia env dest data caption asDocument w)) \<noteq> sendMessageCalls w"
    then show "fst (sendWhatsAppMedia env dest data caption asDocument w) =
              Inl (JsError (if noLidForUser m then msgNotOnWhatsApp else m))"
      using assms s1 s2
      by (auto simp add: sendWhatsAppMedia_def w1 w2 tryCatch_def clientCall_def sendFailure_error
          split: sum.splits if_splits)
  }
  {
    assume "noLidForUser m"
    then show "m \<noteq> msgNotOnWhatsApp"
      using not_on_whatsapp_no_lid by auto
  }
qed

text \<open>The witness: a client that is ready and knows the number; \<^verbatim>\<open>sendMessage\<close> is called
  and rejects, once with the unroutable-identity message and once with another one.\<close>

theorem C8_witness:
  "sendMessageCalls (snd (sendWhatsAppMessage (readyClient (Some (JsError ''No LID for user'')))
          ''11999998888'' ''oi'' createSingleton)) =
     [SendMessage ''5511999998888@c.us'' (Text ''oi'')] \<and>
   fst (sendWhatsAppMessage (readyClient (Some (JsError ''No LID for user'')))
          ''11999998888'' ''oi'' createSingleton) = Inl (JsError msgNotOnWhatsApp) \<and>
   sendMessageCalls (snd (sendWhatsAppMedia (readyClient (Some (JsError ''timeout''))) ''11999998888''
          \<lparr>mimeType = ''image/png'', base64 = ''AAAA'', filename = None\<rparr> None False
          createSingleton)) =
     [SendMessage ''5511999998888@c.us'' (Media ''image/png'' ''AAAA'' None None False)] \<and>
   fst (sendWhatsAppMedia (readyClient (Some (JsError ''timeout''))) ''11999998888''
          \<lparr>mimeType = ''image/png'', base64 = ''AAAA'', filename = None\<rparr> None False
          createSingleton) = Inl (JsError ''timeout'')"
  using
    C8_send_failure [of "readyClient (Some (JsError ''No LID for user''))" "''No LID for user''"
        "''11999998888''" "''oi''" createSingleton
        "\<lparr>mimeType = ''image/png'', base64 = ''AAAA'', filename = None\<rparr>" None False]
    C8_send_failure [of "readyClient (Some (JsError ''timeout''))" "''timeout''"
        "''11999998888''" "''oi''" createSingleton
        "\<lparr>mimeType = ''image/png'', base64 = ''AAAA'', filename = None\<rparr>" None False]
  unfolding send_text_no_lid send_media_timeout
  by (simp add: sendMessageCalls_def createSingleton_def no_lid_examples)

section \<open>C9: the typed event, then the \<^verbatim>\<open>state\<close> event\<close>




section \<open>C10: subscribe and unsubscribe\<close>

text \<open>
  Claim C10, as stated: for every listener, the unsubscribe function that
  \<^verbatim>\<open>subscribe(listener)\<close> returns removes the listener, so that no event is delivered to it
  afterwards, and calling it again changes nothing. For a listener that is subscribed
  twice this fails: \<^verbatim>\<open>on\<close> registers it twice and \<^verbatim>\<open>off\<close> removes one registration per call.
  After the first call of the unsubscribe function listener 7 is still registered and
  still receives an event; the second call removes it.
\<close>

theorem C10_counterexample:
  "listeners (fst (subscribeWhatsAppEvents 7 createSingleton)
     (snd (subscribeWhatsAppEvents 7 (snd (subscribeWhatsAppEvents 7 createSingleton))))) = [7] \<and>
   received 7 (emit E_ready (fst (subscribeWhatsAppEvents 7 createSingleton)
     (snd (subscribeWhatsAppEvents 7 (snd (subscribeWhatsAppEvents 7 createSingleton)))))) = [E_ready] \<and>
   listeners (fst (subscribeWhatsAppEvents 7 createSingleton)
     (fst (subscribeWhatsAppEvents 7 createSingleton)
       (snd (subscribeWhatsAppEvents 7 (snd (subscribeWhatsAppEvents 7 createSingleton)))))) = []"
  by (simp add: model_defs)

text \<open>
  Claim C10, amended: for every listener that is not subscribed already,
  \<^verbatim>\<open>subscribe(listener)\<close> registers it and returns an unsubscribe function. Through any
  sequence of \<^verbatim>\<open>start()\<close>, \<^verbatim>\<open>reset()\<close>, send operations, client events and settling
  patches the listener stays registered and receives exactly the events emitted since,
  in their order. Calling the unsubscribe function then removes exactly that listener
  (the other listeners stay, in their order); through any further such sequence it stays
  removed and no event is delivered to it; and calling the unsubscribe function again
  changes nothing. The same holds from any state in which the listener has one
  registration.
\<close>

theorem C10_subscribe:
  "(l \<notin> set (listeners w) \<longrightarrow>
      snd (subscribeWhatsAppEvents l w) = on l w \<and>
      listeners (on l w) = listeners w @ [l] \<and>
      listeners (run acts (on l w)) = listeners w @ [l] \<and>
      received l (run acts (on l w)) =
        received l (on l w) @ drop (length (emitted (on l w))) (emitted (run acts (on l w))) \<and>
      received l (emit e (run acts (on l w))) = received l (run acts (on l w)) @ [e] \<and>
      received l (emit e (on l w)) = received l (on l w) @ [e] \<and>
      listeners (fst (subscribeWhatsAppEvents l w) (on l w)) = listeners w \<and>
      listeners (fst (subscribeWhatsAppEvents l w) (run acts (on l w))) = listeners w \<and>
      listeners (run acts' (fst (subscribeWhatsAppEvents l w) (run acts (on l w)))) = listeners w \<and>
      received l (run acts' (fst (subscribeWhatsAppEvents l w) (run acts (on l w)))) =
        received l (run acts (on l w)) \<and>
      received l (emit e (run acts' (fst (subscribeWhatsAppEvents l w) (run acts (on l w))))) =
        received l (run acts (on l w)) \<and>
      fst (subscribeWhatsAppEvents l w) (fst (subscribeWhatsAppEvents l w) (run acts (on l w))) =
        fst (subscribeWhatsAppEvents l w) (run acts (on l w))) \<and>
   (count_list (listeners w') l = 1 \<longrightarrow>
      listeners (fst (subscribeWhatsAppEvents l w) w') = removeAll l (listeners w') \<and>
      received l (emit e (fst (subscribeWhatsAppEvents l w) w')) =
        received l (fst (subscribeWhatsAppEvents l w) w') \<and>
      fst (subscribeWhatsAppEvents l w) (fst (subscribeWhatsAppEvents l w) w') =
        fst (subscribeWhatsAppEvents l w) w' \<and>
      listeners (run acts w') = listeners w' \<and>
      received l (run acts w') =
        received l w' @ drop (length (emitted w')) (emitted (run acts w')) \<and>
      listeners (run acts (fst (subscribeWhatsAppEvents l w) w')) = removeAll l (listeners w') \<and>
      received l (run acts (fst (subscribeWhatsAppEvents l w) w')) = received l w')"
proof (intro conjI impI)
  assume a: "l \<notin> set (listeners w)"
  let ?w1 = "on l w"
  let ?w2 = "run acts ?w1"
  let ?w3 = "off l ?w2"
  have u: "fst (subscribeWhatsAppEvents l w) = off l"
    by (simp add: subscribeWhatsAppEvents_def)
  have l1: "listeners ?w1 = listeners w @ [l]"
    by (simp add: on_def)
  have c1: "count_list (listeners ?w1) l = 1"
    using a by (simp add: l1)
  have l2: "listeners ?w2 = listeners w @ [l]"
    by (simp add: run_listeners l1)
  have c2: "count_list (listeners ?w2) l = 1"
    using a by (simp add: l2)
  have l3: "listeners ?w3 = listeners w"
    using a by (simp add: off_once [OF c2] l2)
  have n3: "l \<notin> set (listeners ?w3)"
    using a by (simp add: l3)
  have n4: "l \<notin> set (listeners (run acts' ?w3))"
    using a by (simp add: run_listeners l3)
  show "snd (subscribeWhatsAppEvents l w) = on l w"
    by (simp add: subscribeWhatsAppEvents_def)
  show "listeners (on l w) = listeners w @ [l]"
    by (rule l1)
  show "listeners (run acts (on l w)) = listeners w @ [l]"
    by (rule l2)
  show "received l (run acts (on l w)) =
        received l (on l w) @ drop (length (emitted (on l w))) (emitted (run acts (on l w)))"
    by (rule broadcasts_received [OF broadcasts_run c1])
  show "received l (emit e (run acts (on l w))) = received l (run acts (on l w)) @ [e]"
    by (rule received_emit_once [OF c2])
  show "received l (emit e (on l w)) = received l (on l w) @ [e]"
    by (rule received_emit_once [OF c1])
  show "listeners (fst (subscribeWhatsAppEvents l w) (on l w)) = listeners w"
    using a by (simp add: u off_once [OF c1] l1)
  show "listeners (fst (subscribeWhatsAppEvents l w) (run acts (on l w))) = listeners w"
    by (simp add: u l3)
  show "listeners (run acts' (fst (subscribeWhatsAppEvents l w) (run acts (on l w)))) = listeners w"
    by (simp add: u run_listeners l3)
  show r4: "received l (run acts' (fst (subscribeWhatsAppEvents l w) (run acts (on l w)))) =
        received l (run acts (on l w))"
    by (simp add: u broadcasts_received_none [OF broadcasts_run n3])
  show "received l (emit e (run acts' (fst (subscribeWhatsAppEvents l w) (run acts (on l w))))) =
        received l (run acts (on l w))"
    using r4 received_emit_none [OF n4, of e] by (simp add: u)
  show "fst (subscribeWhatsAppEvents l w) (fst (subscribeWhatsAppEvents l w) (run acts (on l w))) =
        fst (subscribeWhatsAppEvents l w) (run acts (on l w))"
    by (simp add: u off_absent [OF n3])
next
  assume c: "count_list (listeners w') l = 1"
  have u: "fst (subscribeWhatsAppEvents l w) = off l"
    by (simp add: subscribeWhatsAppEvents_def)
  have r: "listeners (off l w') = removeAll l (listeners w')"
    by (rule off_once [OF c])
  then have n: "l \<notin> set (listeners (off l w'))"
    by simp
  show "listeners (fst (subscribeWhatsAppEvents l w) w') = removeAll l (listeners w')"
    by (simp add: u r)
  show "received l (emit e (fst (subscribeWhatsAppEvents l w) w')) =
        received l (fst (subscribeWhatsAppEvents l w) w')"
    using n by (simp add: u received_emit_none)
  show "fst (subscribeWhatsAppEvents l w) (fst (subscribeWhatsAppEvents l w) w') =
        fst (subscribeWhatsAppEvents l w) w'"
    using n by (simp add: u off_absent)
  show "listeners (run acts w') = listeners w'"
    by (rule run_listeners)
  show "received l (run acts w') =
        received l w' @ drop (length (emitted w')) (emitted (run acts w'))"
    by (rule broadcasts_received [OF broadcasts_run c])
  show "listeners (run acts (fst (subscribeWhatsAppEvents l w) w')) = removeAll l (listeners w')"
    by (simp add: u run_listeners r)
  show "received l (run acts (fst (subscribeWhatsAppEvents l w) w')) = received l w'"
    by (simp add: u broadcasts_received_none [OF broadcasts_run n])
qed

text \<open>The witness: listener 7 subscribes to a fresh singleton and \<^verbatim>\<open>start()\<close> follows; it
  receives the \<^verbatim>\<open>state\<close> event of \<^verbatim>\<open>start()\<close>, and after unsubscribing nothing of
  \<^verbatim>\<open>reset()\<close>. With listener 8 subscribed after it, unsubscribing 7 leaves 8.\<close>

theorem C10_witness:
  "7 \<notin> set (listeners createSingleton) \<and>
   listeners (run [Start quietInit] (on 7 createSingleton)) = [7] \<and>
   received 7 (run [Start quietInit] (on 7 createSingleton)) =
     [E_state \<lparr>status = S_initializing, qr = None, lastError = None\<rparr>] \<and>
   listeners (run [Reset None None]
     (fst (subscribeWhatsAppEvents 7 createSingleton)
        (run [Start quietInit] (on 7 createSingleton)))) = [] \<and>
   received 7 (run [Reset None None]
     (fst (subscribeWhatsAppEvents 7 createSingleton)
        (run [Start quietInit] (on 7 createSingleton)))) =
     [E_state \<lparr>status = S_initializing, qr = None, lastError = None\<rparr>] \<and>
   count_list (listeners (on 8 (on 7 createSingleton))) 7 = 1 \<and>
   listeners (fst (subscribeWhatsAppEvents 7 createSingleton) (on 8 (on 7 createSingleton))) = [8] \<and>
   received 7 (emit E_ready
     (fst (subscribeWhatsAppEvents 7 createSingleton) (on 8 (on 7 createSingleton)))) = []"
  using C10_subscribe [where l = 7 and w = createSingleton and e = E_ready
      and acts = "[Start quietInit]" and acts' = "[Reset None None]"
      and w' = "on 8 (on 7 createSingleton)"]
  by (simp add: model_defs)

end
